theory Spec2Isabelle
  imports Main "HOL-Library.AList" "HOL-Library.Word"
begin

section \<open>sqlsess: a database backed session store (db.go)\<close>

text \<open>
  The store is one Go file. It talks to four collaborators that are not part of it: the
  SQL database behind \<^verbatim>\<open>database/sql\<close>, the cookie codec of gorilla/securecookie, the
  HTTP request and response, and the clock. Each of them appears below as explicit data:
  the table and the outcome of every driver call live in a \<open>world\<close> record that every
  operation takes and returns, the codec and the text conversions are fields of an
  \<open>env\<close> record, the clock reading is an argument. The per-session locks of
  BurntSushi/locker order concurrent calls; this development describes one call at a time
  and leaves them out.
\<close>

subsection \<open>Data\<close>

type_synonym bytes = string

text \<open>An instant, in nanoseconds since the Unix epoch. \<^verbatim>\<open>UTC()\<close> keeps the instant.\<close>

type_synonym time = int

text \<open>\<^verbatim>\<open>time.Duration\<close> is a signed 64-bit count of nanoseconds.\<close>

type_synonym Duration = "64 word"

datatype error =
    DriverError nat
  | UniqueViolation
  | ErrTxDone
  | ErrNoCookie
  | CodecError nat
  | ParseError
  | UnsupportedType

datatype panic = Panic string

text \<open>
  The values of a gorilla session are \<^verbatim>\<open>map[interface{}]interface{}\<close>: a key or a value is
  a string, a \<^verbatim>\<open>time.Time\<close> (what \<open>Save\<close> stores), or a Go value of any other type,
  which is kept opaque here.
\<close>

datatype val = Str string | Time time | Other nat

text \<open>One row of the table \<^verbatim>\<open>sess_session\<close>: columns id, name, key, value.\<close>

record row =
  rid :: bytes
  rname :: string
  rkey :: string
  rvalue :: string

text \<open>
  \<open>table\<close> is what readers see; \<open>tx\<close> is the working copy of the open transaction, if
  any; \<open>faults\<close> lists what the next calls into the driver report for reasons of their own
  (a lost connection, say), one entry per call, none when the list is used up;
  \<open>rand\<close> is the byte sequence of the system's random source and \<open>drawn\<close> how much of it
  has been read.
\<close>

record world =
  table :: "row list"
  tx :: "row list option"
  faults :: "error option list"
  rand :: "nat \<Rightarrow> char"
  drawn :: nat

record codec =
  Encode :: "string \<Rightarrow> string \<Rightarrow> error + string"
  Decode :: "string \<Rightarrow> string \<Rightarrow> error + string"

text \<open>
  The libraries the store calls: \<^verbatim>\<open>securecookie.New\<close>, the text the SQL driver stores in
  a TEXT column for a \<^verbatim>\<open>time.Time\<close> argument and for an argument of another type (or the
  error of its conversion), and \<^verbatim>\<open>time.Parse(time.RFC3339Nano, _)\<close>.
\<close>

record env =
  securecookie_New :: "bytes option \<Rightarrow> bytes option \<Rightarrow> codec"
  format_time :: "time \<Rightarrow> string"
  convert_other :: "nat \<Rightarrow> error + string"
  time_Parse :: "string \<Rightarrow> error + time"

text \<open>A nil slice is \<open>None\<close>.\<close>

record Store =
  hashKey :: "bytes option"
  blockKey :: "bytes option"

record Session =
  ID :: string
  Values :: "(val \<times> val) list"
  name :: string

record request =
  cookies :: "(string \<times> string) list"

record Cookie =
  Name :: string
  Value :: string
  Path :: string
  HttpOnly :: bool

text \<open>The response, as far as the store writes it: the cookies set, in order.\<close>

type_synonym response = "Cookie list"

definition SessionLastUpdated :: string where
  "SessionLastUpdated = ''__sess_last_updated''"

definition CookieIdName :: string where
  "CookieIdName = ''sess_sessionid''"

subsection \<open>The database\<close>

text \<open>Every call into the driver takes the next entry of \<open>faults\<close>.\<close>

definition driver_call :: "world \<Rightarrow> error option \<times> world" where
  "driver_call w =
     (case faults w of
        [] \<Rightarrow> (None, w)
      | f # fs \<Rightarrow> (f, w\<lparr>faults := fs\<rparr>))"

text \<open>\<^verbatim>\<open>s.Exec("DELETE FROM sess_session WHERE id = $1", id)\<close>, outside a transaction.\<close>

definition Exec_DELETE :: "bytes \<Rightarrow> world \<Rightarrow> error option \<times> world" where
  "Exec_DELETE i w =
     (case driver_call w of
        (Some e, w1) \<Rightarrow> (Some e, w1)
      | (None, w1) \<Rightarrow> (None, w1\<lparr>table := filter (\<lambda>r. rid r \<noteq> i) (table w1)\<rparr>))"

text \<open>\<^verbatim>\<open>SELECT id, value FROM sess_session WHERE key = $1\<close>: the rows as of the query.\<close>

definition Query_last_updated ::
  "string \<Rightarrow> world \<Rightarrow> (error + (bytes \<times> string) list) \<times> world" where
  "Query_last_updated k w =
     (case driver_call w of
        (Some e, w1) \<Rightarrow> (Inl e, w1)
      | (None, w1) \<Rightarrow>
          (Inr (map (\<lambda>r. (rid r, rvalue r)) (filter (\<lambda>r. rkey r = k) (table w1))), w1))"

text \<open>\<^verbatim>\<open>SELECT key, value FROM sess_session WHERE id = $1 AND name = $2\<close>.\<close>

definition Query_values ::
  "bytes \<Rightarrow> string \<Rightarrow> world \<Rightarrow> (error + (string \<times> string) list) \<times> world" where
  "Query_values i nm w =
     (case driver_call w of
        (Some e, w1) \<Rightarrow> (Inl e, w1)
      | (None, w1) \<Rightarrow>
          (Inr (map (\<lambda>r. (rkey r, rvalue r))
                 (filter (\<lambda>r. rid r = i \<and> rname r = nm) (table w1))), w1))"

text \<open>
  \<^verbatim>\<open>rows.Next()\<close> fetches; when the fetch fails it returns false and \<^verbatim>\<open>rows.Err()\<close> holds
  the error. \<^verbatim>\<open>rows.Scan\<close> converts the fetched row and may fail too.
\<close>

definition rows_Next :: "world \<Rightarrow> error option \<times> world" where
  "rows_Next w = driver_call w"

definition rows_Scan :: "world \<Rightarrow> error option \<times> world" where
  "rows_Scan w = driver_call w"

text \<open>
  A transaction works on a copy of the table. \<open>tx_Commit\<close> publishes the copy,
  \<open>tx_Rollback\<close> drops it, also when the call itself reports a fault; a commit that
  fails publishes nothing.
\<close>

definition Begin :: "world \<Rightarrow> error option \<times> world" where
  "Begin w =
     (case driver_call w of
        (Some e, w1) \<Rightarrow> (Some e, w1)
      | (None, w1) \<Rightarrow> (None, w1\<lparr>tx := Some (table w1)\<rparr>))"

definition tx_Exec_DELETE :: "bytes \<Rightarrow> world \<Rightarrow> error option \<times> world" where
  "tx_Exec_DELETE i w =
     (case driver_call w of
        (Some e, w1) \<Rightarrow> (Some e, w1)
      | (None, w1) \<Rightarrow>
          (case tx w1 of
             None \<Rightarrow> (Some ErrTxDone, w1)
           | Some rs \<Rightarrow> (None, w1\<lparr>tx := Some (filter (\<lambda>r. rid r \<noteq> i) rs)\<rparr>)))"

definition tx_Prepare :: "world \<Rightarrow> error option \<times> world" where
  "tx_Prepare w =
     (case driver_call w of
        (Some e, w1) \<Rightarrow> (Some e, w1)
      | (None, w1) \<Rightarrow>
          (case tx w1 of
             None \<Rightarrow> (Some ErrTxDone, w1)
           | Some rs \<Rightarrow> (None, w1)))"

text \<open>How an argument of the INSERT becomes the text of its column.\<close>

definition bind_arg :: "env \<Rightarrow> val \<Rightarrow> error + string" where
  "bind_arg E v =
     (case v of
        Str s \<Rightarrow> Inr s
      | Time t \<Rightarrow> Inr (format_time E t)
      | Other n \<Rightarrow> convert_other E n)"

text \<open>
  \<^verbatim>\<open>prep.Exec(id, name, k, v)\<close> for \<^verbatim>\<open>INSERT INTO sess_session (id, name, key, value)\<close>.
  The primary key is (id, name, key).
\<close>

definition prep_Exec ::
  "env \<Rightarrow> bytes \<Rightarrow> string \<Rightarrow> val \<Rightarrow> val \<Rightarrow> world \<Rightarrow> error option \<times> world" where
  "prep_Exec E i nm k v w =
     (case bind_arg E k of
        Inl e \<Rightarrow> (Some e, w)
      | Inr kt \<Rightarrow>
          (case bind_arg E v of
             Inl e \<Rightarrow> (Some e, w)
           | Inr vt \<Rightarrow>
               (case driver_call w of
                  (Some e, w1) \<Rightarrow> (Some e, w1)
                | (None, w1) \<Rightarrow>
                    (case tx w1 of
                       None \<Rightarrow> (Some ErrTxDone, w1)
                     | Some rs \<Rightarrow>
                         if \<exists>r \<in> set rs. rid r = i \<and> rname r = nm \<and> rkey r = kt
                         then (Some UniqueViolation, w1)
                         else (None, w1\<lparr>tx := Some (rs @
                                 [\<lparr>rid = i, rname = nm, rkey = kt, rvalue = vt\<rparr>])\<rparr>)))))"

text \<open>\<^verbatim>\<open>tx.Rollback()\<close>, whose error the store drops.\<close>

definition tx_Rollback :: "world \<Rightarrow> world" where
  "tx_Rollback w = (case driver_call w of (e, w1) \<Rightarrow> w1\<lparr>tx := None\<rparr>)"

definition tx_Commit :: "world \<Rightarrow> error option \<times> world" where
  "tx_Commit w =
     (case driver_call w of
        (Some e, w1) \<Rightarrow> (Some e, w1\<lparr>tx := None\<rparr>)
      | (None, w1) \<Rightarrow>
          (case tx w1 of
             None \<Rightarrow> (Some ErrTxDone, w1)
           | Some rs \<Rightarrow> (None, w1\<lparr>table := rs, tx := None\<rparr>)))"

subsection \<open>Keys and cookies\<close>

definition len :: "bytes option \<Rightarrow> nat" where
  "len b = (case b of None \<Rightarrow> 0 | Some xs \<Rightarrow> length xs)"

definition SetKeys :: "Store \<Rightarrow> bytes option \<Rightarrow> bytes option \<Rightarrow> panic + Store" where
  "SetKeys s hash block =
     (let validLen = (len block = 16 \<or> len block = 24 \<or> len block = 32)
      in if block \<noteq> None \<and> \<not> validLen
         then Inl (Panic ''invalid block key'')
         else Inr (s\<lparr>hashKey := hash, blockKey := block\<rparr>))"

definition cookrw :: "env \<Rightarrow> Store \<Rightarrow> codec" where
  "cookrw E s = securecookie_New E (hashKey s) (blockKey s)"

text \<open>\<^verbatim>\<open>r.Cookie(name)\<close>: the first cookie of that name, or \<^verbatim>\<open>http.ErrNoCookie\<close>.\<close>

definition request_Cookie :: "request \<Rightarrow> string \<Rightarrow> error + string" where
  "request_Cookie r cname =
     (case map_of (cookies r) cname of
        None \<Rightarrow> Inl ErrNoCookie
      | Some v \<Rightarrow> Inr v)"

definition readCookie :: "env \<Rightarrow> Store \<Rightarrow> request \<Rightarrow> string \<Rightarrow> string" where
  "readCookie E s r cname =
     (case request_Cookie r cname of
        Inr cook \<Rightarrow>
          (case Decode (cookrw E s) cname cook of
             Inr v \<Rightarrow> v
           | Inl e \<Rightarrow> '''')
      | Inl e \<Rightarrow> '''')"

definition SetCookie :: "response \<Rightarrow> Cookie \<Rightarrow> response" where
  "SetCookie resp cook = resp @ [cook]"

definition writeCookie :: "env \<Rightarrow> Store \<Rightarrow> response \<Rightarrow> string \<Rightarrow> string \<Rightarrow> response" where
  "writeCookie E s resp cname cvalue =
     (case Encode (cookrw E s) cname cvalue of
        Inr encoded \<Rightarrow>
          SetCookie resp \<lparr>Name = cname, Value = encoded, Path = ''/'', HttpOnly = True\<rparr>
      | Inl e \<Rightarrow> resp)"

text \<open>
  \<^verbatim>\<open>securecookie.GenerateRandomKey(n)\<close>: the next \<open>n\<close> bytes of the random source. The
  source is taken to deliver; a read of it that fails, for which the library returns nil,
  is not described.
\<close>

definition GenerateRandomKey :: "nat \<Rightarrow> world \<Rightarrow> bytes \<times> world" where
  "GenerateRandomKey n w =
     (map (rand w) [drawn w ..< drawn w + n], w\<lparr>drawn := drawn w + n\<rparr>)"

definition store_id :: "env \<Rightarrow> Store \<Rightarrow> request \<Rightarrow> world \<Rightarrow> string \<times> world" where
  "store_id E s r w =
     (let i = readCookie E s r CookieIdName
      in if length i = 0 then GenerateRandomKey 64 w else (i, w))"

subsection \<open>The operations of the store\<close>

definition Delete :: "Session \<Rightarrow> world \<Rightarrow> error option \<times> world" where
  "Delete sess w = Exec_DELETE (ID sess) w"

text \<open>
  The loop of \<open>Clean\<close> over the rows of the query. The cutoff is
  \<^verbatim>\<open>time.Now().UTC().Add(-inactive)\<close>: the negation is the one of a signed 64-bit integer.
\<close>

fun Clean_rows ::
  "env \<Rightarrow> time \<Rightarrow> (bytes \<times> string) list \<Rightarrow> world \<Rightarrow> error option \<times> world" where
  "Clean_rows E cutoff [] w = rows_Next w"
| "Clean_rows E cutoff ((i, lst) # rest) w =
     (case rows_Next w of
        (Some e, w1) \<Rightarrow> (Some e, w1)
      | (None, w1) \<Rightarrow>
          (case rows_Scan w1 of
             (Some e, w2) \<Rightarrow> (Some e, w2)
           | (None, w2) \<Rightarrow>
               (case time_Parse E lst of
                  Inl e \<Rightarrow> (Some e, w2)
                | Inr lastUp \<Rightarrow>
                    if lastUp < cutoff
                    then (case Exec_DELETE i w2 of
                            (Some e, w3) \<Rightarrow> (Some e, w3)
                          | (None, w3) \<Rightarrow> Clean_rows E cutoff rest w3)
                    else Clean_rows E cutoff rest w2)))"

definition time_Add :: "time \<Rightarrow> Duration \<Rightarrow> time" where
  "time_Add t d = t + sint d"

definition Clean :: "env \<Rightarrow> time \<Rightarrow> Duration \<Rightarrow> world \<Rightarrow> error option \<times> world" where
  "Clean E now inactive w =
     (case Query_last_updated SessionLastUpdated w of
        (Inl e, w1) \<Rightarrow> (Some e, w1)
      | (Inr rows, w1) \<Rightarrow>
          (let cutoff = time_Add now (- inactive)
           in Clean_rows E cutoff rows w1))"

definition NewSession :: "string \<Rightarrow> Session" where
  "NewSession nm = \<lparr>ID = '''', Values = [], name = nm\<rparr>"

fun New_rows ::
  "(string \<times> string) list \<Rightarrow> Session \<Rightarrow> world \<Rightarrow> (error + Session) \<times> world" where
  "New_rows [] sess w =
     (case rows_Next w of
        (Some e, w1) \<Rightarrow> (Inl e, w1)
      | (None, w1) \<Rightarrow> (Inr sess, w1))"
| "New_rows ((k, v) # rest) sess w =
     (case rows_Next w of
        (Some e, w1) \<Rightarrow> (Inl e, w1)
      | (None, w1) \<Rightarrow>
          (case rows_Scan w1 of
             (Some e, w2) \<Rightarrow> (Inl e, w2)
           | (None, w2) \<Rightarrow>
               New_rows rest
                 (sess\<lparr>Values := AList.update (Str k) (Str v) (Values sess)\<rparr>) w2))"

definition New ::
  "env \<Rightarrow> Store \<Rightarrow> request \<Rightarrow> string \<Rightarrow> world \<Rightarrow> (error + Session) \<times> world" where
  "New E s r nm w =
     (case store_id E s r w of
        (i, w0) \<Rightarrow>
          (let sess = (NewSession nm)\<lparr>ID := i\<rparr>
           in case Query_values (ID sess) nm w0 of
                (Inl e, w1) \<Rightarrow> (Inl e, w1)
              | (Inr rows, w1) \<Rightarrow> New_rows rows sess w1))"

text \<open>
  The loop of \<open>Save\<close> over the values. Go visits the entries of a map in an order of its
  choosing; the order of the list is the order of one run.
\<close>

fun Save_values ::
  "env \<Rightarrow> bytes \<Rightarrow> string \<Rightarrow> (val \<times> val) list \<Rightarrow> world \<Rightarrow> error option \<times> world" where
  "Save_values E i nm [] w = (None, w)"
| "Save_values E i nm ((k, v) # rest) w =
     (case prep_Exec E i nm k v w of
        (Some e, w1) \<Rightarrow> (Some e, w1)
      | (None, w1) \<Rightarrow> Save_values E i nm rest w1)"

definition Save ::
  "env \<Rightarrow> Store \<Rightarrow> time \<Rightarrow> response \<Rightarrow> Session \<Rightarrow> world
     \<Rightarrow> error option \<times> response \<times> Session \<times> world" where
  "Save E s now resp sess w =
     (let resp1 = writeCookie E s resp CookieIdName (ID sess);
          i = ID sess;
          sess1 = sess\<lparr>Values :=
                    AList.update (Str SessionLastUpdated) (Time now) (Values sess)\<rparr>
      in case Begin w of
           (Some e, w1) \<Rightarrow> (Some e, resp1, sess1, w1)
         | (None, w1) \<Rightarrow>
             (case tx_Exec_DELETE i w1 of
                (Some e, w2) \<Rightarrow> (Some e, resp1, sess1, tx_Rollback w2)
              | (None, w2) \<Rightarrow>
                  (case tx_Prepare w2 of
                     (Some e, w3) \<Rightarrow> (Some e, resp1, sess1, tx_Rollback w3)
                   | (None, w3) \<Rightarrow>
                       (case Save_values E i (name sess1) (Values sess1) w3 of
                          (Some e, w4) \<Rightarrow> (Some e, resp1, sess1, tx_Rollback w4)
                        | (None, w4) \<Rightarrow>
                            (case tx_Commit w4 of
                               (e, w5) \<Rightarrow> (e, resp1, sess1, w5))))))"

subsection \<open>What a save stores\<close>

text \<open>The text of an argument, and the row that one entry of the values becomes.\<close>

definition text_of :: "env \<Rightarrow> val \<Rightarrow> string" where
  "text_of E v = (case bind_arg E v of Inr s \<Rightarrow> s | Inl e \<Rightarrow> [])"

definition row_of :: "env \<Rightarrow> bytes \<Rightarrow> string \<Rightarrow> val \<times> val \<Rightarrow> row" where
  "row_of E i nm kv =
     \<lparr>rid = i, rname = nm, rkey = text_of E (fst kv), rvalue = text_of E (snd kv)\<rparr>"

text \<open>The values after \<open>Save\<close> has put the clock reading under the reserved key.\<close>

definition stamped :: "time \<Rightarrow> Session \<Rightarrow> (val \<times> val) list" where
  "stamped now sess = AList.update (Str SessionLastUpdated) (Time now) (Values sess)"

definition is_Str :: "val \<Rightarrow> bool" where
  "is_Str v = (case v of Str s \<Rightarrow> True | _ \<Rightarrow> False)"

text \<open>A mapping from string keys to string values, as the rows can hold it.\<close>

definition strings_only :: "(val \<times> val) list \<Rightarrow> bool" where
  "strings_only vs = list_all (\<lambda>kv. is_Str (fst kv) \<and> is_Str (snd kv)) vs"

text \<open>
  The attributes of a mapping \<open>vs\<close> saved at \<open>now\<close>, as text: the last-updated marker,
  and under every other key the string that \<open>vs\<close> holds there.
\<close>

definition saved_attributes :: "env \<Rightarrow> (val \<times> val) list \<Rightarrow> time \<Rightarrow> string \<Rightarrow> string option" where
  "saved_attributes E vs now k =
     (if k = SessionLastUpdated then Some (format_time E now)
      else (case map_of vs (Str k) of Some (Str v) \<Rightarrow> Some v | _ \<Rightarrow> None))"

definition rows_for :: "bytes \<Rightarrow> string \<Rightarrow> row list \<Rightarrow> row list" where
  "rows_for i nm rs = filter (\<lambda>r. rid r = i \<and> rname r = nm) rs"

definition rows_of_id :: "bytes \<Rightarrow> row list \<Rightarrow> row list" where
  "rows_of_id i rs = filter (\<lambda>r. rid r = i) rs"

text \<open>
  The id \<open>i\<close> is stale in a table: one of its last-updated markers parses to an instant
  before the cutoff. It is fresh: each of its markers parses to an instant at or after it.
\<close>

definition stale :: "env \<Rightarrow> time \<Rightarrow> row list \<Rightarrow> bytes \<Rightarrow> bool" where
  "stale E cutoff rs i =
     (\<exists>r \<in> set rs. rid r = i \<and> rkey r = SessionLastUpdated \<and>
        (case time_Parse E (rvalue r) of Inr t \<Rightarrow> t < cutoff | Inl e \<Rightarrow> False))"

definition fresh :: "env \<Rightarrow> time \<Rightarrow> row list \<Rightarrow> bytes \<Rightarrow> bool" where
  "fresh E cutoff rs i =
     (\<forall>r \<in> set rs. rid r = i \<and> rkey r = SessionLastUpdated \<longrightarrow>
        (case time_Parse E (rvalue r) of Inr t \<Rightarrow> cutoff \<le> t | Inl e \<Rightarrow> False))"

text \<open>The same, on the pairs that the query of \<open>Clean\<close> returns.\<close>

definition stale_marker :: "env \<Rightarrow> time \<Rightarrow> (bytes \<times> string) list \<Rightarrow> bytes \<Rightarrow> bool" where
  "stale_marker E cutoff ms i =
     (\<exists>m \<in> set ms. fst m = i \<and>
        (case time_Parse E (snd m) of Inr t \<Rightarrow> t < cutoff | Inl e \<Rightarrow> False))"

subsection \<open>An environment for the examples\<close>

text \<open>
  A codec that, like securecookie, refuses to encode or decode when it has no hash key,
  and otherwise puts the cookie's name in front of the value.
\<close>

definition test_codec :: "bytes option \<Rightarrow> bytes option \<Rightarrow> codec" where
  "test_codec hash block =
     \<lparr>Encode = (\<lambda>cname v. if hash = None then Inl (CodecError 0) else Inr (cname @ ''|'' @ v)),
      Decode = (\<lambda>cname tok.
         if hash = None then Inl (CodecError 0)
         else if take (length cname + 1) tok = cname @ ''|''
              then Inr (drop (length cname + 1) tok)
              else Inl (CodecError 1))\<rparr>"

text \<open>Four instants and their RFC 3339 texts: days 0, 5, 9 and 10 of 1970.\<close>

definition test_times :: "(string \<times> time) list" where
  "test_times =
     [(''1970-01-01T00:00:00Z'', 0),
      (''1970-01-06T00:00:00Z'', 432000000000000),
      (''1970-01-10T00:00:00Z'', 777600000000000),
      (''1970-01-11T00:00:00Z'', 864000000000000)]"

definition test_env :: env where
  "test_env =
     \<lparr>securecookie_New = test_codec,
      format_time = (\<lambda>t. case map_of (map (\<lambda>(s, t). (t, s)) test_times) t of
                           Some s \<Rightarrow> s | None \<Rightarrow> ''?''),
      convert_other = (\<lambda>n. Inl UnsupportedType),
      time_Parse = (\<lambda>s. case map_of test_times s of
                           Some t \<Rightarrow> Inr t | None \<Rightarrow> Inl ParseError)\<rparr>"

definition test_store :: Store where
  "test_store = \<lparr>hashKey = Some ''hash'', blockKey = None\<rparr>"

definition test_world :: "row list \<Rightarrow> error option list \<Rightarrow> world" where
  "test_world rs fs = \<lparr>table = rs, tx = None, faults = fs, rand = (\<lambda>n. CHR ''r''), drawn = 0\<rparr>"

definition test_session :: Session where
  "test_session = \<lparr>ID = ''abc'', Values = [(Str ''user'', Str ''bob'')], name = ''main''\<rparr>"

text \<open>Rows of the id of \<open>test_session\<close> under two names, and a row of another id.\<close>

definition test_rows :: "row list" where
  "test_rows =
     [\<lparr>rid = ''abc'', rname = ''other'', rkey = ''k'', rvalue = ''v''\<rparr>,
      \<lparr>rid = ''abc'', rname = ''main'', rkey = ''old'', rvalue = ''x''\<rparr>,
      \<lparr>rid = ''zzz'', rname = ''main'', rkey = ''user'', rvalue = ''eve''\<rparr>]"

text \<open>A session last saved on day 0 and one last saved on day 9.\<close>

definition test_sessions :: "row list" where
  "test_sessions =
     [\<lparr>rid = ''a'', rname = ''main'', rkey = SessionLastUpdated,
         rvalue = ''1970-01-01T00:00:00Z''\<rparr>,
      \<lparr>rid = ''a'', rname = ''main'', rkey = ''user'', rvalue = ''ann''\<rparr>,
      \<lparr>rid = ''b'', rname = ''main'', rkey = SessionLastUpdated,
         rvalue = ''1970-01-10T00:00:00Z''\<rparr>,
      \<lparr>rid = ''b'', rname = ''main'', rkey = ''user'', rvalue = ''bob''\<rparr>]"

lemmas test_defs =
  test_env_def test_codec_def test_store_def test_world_def test_times_def
  test_session_def test_rows_def test_sessions_def CookieIdName_def SessionLastUpdated_def

lemmas Save_defs =
  Save_def Let_def writeCookie_def SetCookie_def cookrw_def Begin_def driver_call_def
  tx_Exec_DELETE_def tx_Prepare_def prep_Exec_def bind_arg_def tx_Commit_def tx_Rollback_def

lemmas Clean_defs =
  Clean_def Let_def Query_last_updated_def driver_call_def rows_Next_def rows_Scan_def
  Exec_DELETE_def time_Add_def

lemmas New_defs =
  New_def Let_def NewSession_def store_id_def readCookie_def request_Cookie_def cookrw_def
  Query_values_def driver_call_def rows_Next_def rows_Scan_def

section \<open>Properties\<close>

subsection \<open>The driver calls\<close>

lemma sint_neg:
  fixes x :: "64 word"
  assumes "x \<noteq> - 9223372036854775808"
  shows "sint (- x) = - sint x"
proof -
  have lo: "- (2 ^ 63) \<le> sint x" using sint_ge [of x] by simp
  have hi: "sint x < 2 ^ 63" using sint_less [of x] by simp
  have "sint x \<noteq> - (2 ^ 63)"
  proof
    assume "sint x = - (2 ^ 63)"
    then have "sint x = sint (- 9223372036854775808 :: 64 word)" by simp
    then have "x = - 9223372036854775808" by (rule signed_word_eqI)
    with assms show False by simp
  qed
  with lo hi have "- (2 ^ 63) \<le> - sint x \<and> - sint x < 2 ^ 63" by simp
  then have "signed_take_bit 63 (- sint x) = - sint x"
    by (simp add: signed_take_bit_int_eq_self_iff)
  then show ?thesis by (simp add: sint_word_minus)
qed

lemma driver_call_keeps:
  "driver_call w = (e, w') \<Longrightarrow>
     table w' = table w \<and> tx w' = tx w \<and> rand w' = rand w \<and> drawn w' = drawn w"
  by (auto simp: driver_call_def split: list.splits)

lemma driver_call_no_faults: "faults w = [] \<Longrightarrow> driver_call w = (None, w)"
  by (simp add: driver_call_def)

lemma Exec_DELETE_ok:
  "Exec_DELETE i w = (None, w') \<Longrightarrow> table w' = filter (\<lambda>r. rid r \<noteq> i) (table w)"
  by (auto simp: Exec_DELETE_def split: prod.splits option.splits dest: driver_call_keeps)

lemma Exec_DELETE_error:
  "fst (Exec_DELETE i w) = fst (driver_call w)"
  by (auto simp: Exec_DELETE_def split: prod.splits option.splits)

lemma Exec_DELETE_failed:
  "Exec_DELETE i w = (Some e, w') \<Longrightarrow> table w' = table w"
  by (auto simp: Exec_DELETE_def split: prod.splits option.splits dest: driver_call_keeps)

lemma filter_absent: "\<forall>r \<in> set rs. rid r \<noteq> i \<Longrightarrow> filter (\<lambda>r. rid r \<noteq> i) rs = rs"
  by (induction rs) auto

subsection \<open>The transaction of Save\<close>

lemma Begin_ok:
  "Begin w = (None, w1) \<Longrightarrow> table w1 = table w \<and> tx w1 = Some (table w)"
  by (auto simp: Begin_def split: prod.splits option.splits dest: driver_call_keeps)

lemma Begin_failed:
  "Begin w = (Some e, w1) \<Longrightarrow> table w1 = table w \<and> tx w1 = tx w"
  by (auto simp: Begin_def split: prod.splits option.splits dest: driver_call_keeps)

lemma tx_Exec_DELETE_table:
  "tx_Exec_DELETE i w = (r, w1) \<Longrightarrow> table w1 = table w"
  by (auto simp: tx_Exec_DELETE_def split: prod.splits option.splits dest: driver_call_keeps)

lemma tx_Exec_DELETE_ok:
  "tx_Exec_DELETE i w = (None, w1) \<Longrightarrow> tx w = Some rs \<Longrightarrow>
     tx w1 = Some (filter (\<lambda>r. rid r \<noteq> i) rs)"
  by (auto simp: tx_Exec_DELETE_def split: prod.splits option.splits dest: driver_call_keeps)

lemma tx_Prepare_keeps:
  "tx_Prepare w = (r, w1) \<Longrightarrow> table w1 = table w \<and> tx w1 = tx w"
  by (auto simp: tx_Prepare_def split: prod.splits option.splits dest: driver_call_keeps)

lemma prep_Exec_table:
  "prep_Exec E i nm k v w = (r, w1) \<Longrightarrow> table w1 = table w"
  by (auto simp: prep_Exec_def split: prod.splits option.splits sum.splits if_splits
      dest: driver_call_keeps)

lemma prep_Exec_ok:
  "prep_Exec E i nm k v w = (None, w1) \<Longrightarrow> tx w = Some rs \<Longrightarrow>
     tx w1 = Some (rs @ [row_of E i nm (k, v)])"
  by (auto simp: prep_Exec_def row_of_def text_of_def
      split: prod.splits option.splits sum.splits if_splits dest: driver_call_keeps)

lemma Save_values_table:
  "Save_values E i nm vs w = (r, w1) \<Longrightarrow> table w1 = table w"
proof (induction vs arbitrary: w)
  case Nil
  then show ?case by simp
next
  case (Cons kv vs)
  obtain k v where kv: "kv = (k, v)" by (cases kv)
  obtain r0 w0 where step: "prep_Exec E i nm k v w = (r0, w0)" by (cases "prep_Exec E i nm k v w")
  then have t: "table w0 = table w" by (rule prep_Exec_table)
  show ?case
  proof (cases r0)
    case None
    with Cons.prems kv step have "Save_values E i nm vs w0 = (r, w1)" by simp
    with Cons.IH t show ?thesis by simp
  next
    case (Some e)
    with Cons.prems kv step t show ?thesis by simp
  qed
qed

lemma Save_values_ok:
  "Save_values E i nm vs w = (None, w1) \<Longrightarrow> tx w = Some rs \<Longrightarrow>
     tx w1 = Some (rs @ map (row_of E i nm) vs)"
proof (induction vs arbitrary: w rs)
  case Nil
  then show ?case by simp
next
  case (Cons kv vs)
  obtain k v where kv: "kv = (k, v)" by (cases kv)
  obtain r0 w0 where step: "prep_Exec E i nm k v w = (r0, w0)" by (cases "prep_Exec E i nm k v w")
  show ?case
  proof (cases r0)
    case None
    with Cons.prems kv step have rest: "Save_values E i nm vs w0 = (None, w1)" by simp
    from step None Cons.prems(2) have "tx w0 = Some (rs @ [row_of E i nm (k, v)])"
      by (simp add: prep_Exec_ok)
    from Cons.IH [OF rest this] kv show ?thesis by simp
  next
    case (Some e)
    with Cons.prems kv step show ?thesis by simp
  qed
qed

text \<open>The loop returns the error of the first insert that fails.\<close>

lemma Save_values_first_failure:
  "Save_values E i nm pre w = (None, w1) \<Longrightarrow> prep_Exec E i nm k v w1 = (Some e, w2) \<Longrightarrow>
     Save_values E i nm (pre @ (k, v) # post) w = (Some e, w2)"
proof (induction pre arbitrary: w)
  case Nil
  then show ?case by simp
next
  case (Cons kv pre)
  obtain k0 v0 where kv: "kv = (k0, v0)" by (cases kv)
  obtain r0 w0 where step: "prep_Exec E i nm k0 v0 w = (r0, w0)"
    by (cases "prep_Exec E i nm k0 v0 w")
  show ?case
  proof (cases r0)
    case None
    with Cons.prems kv step have "Save_values E i nm pre w0 = (None, w1)" by simp
    from Cons.IH [OF this Cons.prems(2)] kv step None show ?thesis by simp
  next
    case (Some e0)
    with Cons.prems kv step show ?thesis by simp
  qed
qed

lemma tx_Rollback_simps [simp]:
  "table (tx_Rollback w) = table w" "tx (tx_Rollback w) = None"
  by (auto simp: tx_Rollback_def split: prod.splits dest: driver_call_keeps)

lemma tx_Commit_failed:
  "tx_Commit w = (Some e, w1) \<Longrightarrow> table w1 = table w \<and> tx w1 = None"
  by (auto simp: tx_Commit_def split: prod.splits option.splits dest: driver_call_keeps)

lemma tx_Commit_ok:
  "tx_Commit w = (None, w1) \<Longrightarrow> tx w1 = None \<and> tx w = Some (table w1)"
  by (auto simp: tx_Commit_def split: prod.splits option.splits dest: driver_call_keeps)

lemma Save_response_session:
  "Save E s now resp sess w = (err, resp', sess', w') \<Longrightarrow>
     resp' = writeCookie E s resp CookieIdName (ID sess) \<and>
     sess' = sess\<lparr>Values := stamped now sess\<rparr>"
  by (auto simp: Save_def Let_def stamped_def split: prod.splits option.splits)

lemma Save_failed:
  assumes "Save E s now resp sess w = (Some e, resp', sess', w')"
  shows "table w' = table w \<and> (tx w = None \<longrightarrow> tx w' = None)"
  using assms
  by (auto simp: Save_def Let_def split: prod.splits option.splits
      dest!: Begin_ok Begin_failed tx_Exec_DELETE_table tx_Prepare_keeps Save_values_table
        tx_Commit_failed)

lemma Save_ok:
  assumes "Save E s now resp sess w = (None, resp', sess', w')"
  shows "table w' = filter (\<lambda>r. rid r \<noteq> ID sess) (table w) @
           map (row_of E (ID sess) (name sess)) (stamped now sess) \<and> tx w' = None"
proof -
  from assms obtain w1 w2 w3 w4 where
    b: "Begin w = (None, w1)" and d: "tx_Exec_DELETE (ID sess) w1 = (None, w2)" and
    p: "tx_Prepare w2 = (None, w3)" and
    v: "Save_values E (ID sess) (name sess) (stamped now sess) w3 = (None, w4)" and
    c: "tx_Commit w4 = (None, w')"
    by (auto simp: Save_def Let_def stamped_def split: prod.splits option.splits)
  from b have "tx w1 = Some (table w)" by (simp add: Begin_ok)
  with d have "tx w2 = Some (filter (\<lambda>r. rid r \<noteq> ID sess) (table w))"
    by (simp add: tx_Exec_DELETE_ok)
  with p have "tx w3 = Some (filter (\<lambda>r. rid r \<noteq> ID sess) (table w))"
    using tx_Prepare_keeps by fastforce
  with v have "tx w4 = Some (filter (\<lambda>r. rid r \<noteq> ID sess) (table w) @
      map (row_of E (ID sess) (name sess)) (stamped now sess))"
    by (simp add: Save_values_ok)
  with c show ?thesis using tx_Commit_ok by fastforce
qed

text \<open>The codec has no part in the transaction.\<close>

lemma bind_arg_codec: "bind_arg (E\<lparr>securecookie_New := c\<rparr>) v = bind_arg E v"
  by (cases v) (simp_all add: bind_arg_def)

lemma prep_Exec_codec:
  "prep_Exec (E\<lparr>securecookie_New := c\<rparr>) i nm k v w = prep_Exec E i nm k v w"
  by (simp add: prep_Exec_def bind_arg_codec cong: sum.case_cong)

lemma Save_values_codec:
  "Save_values (E\<lparr>securecookie_New := c\<rparr>) i nm vs w = Save_values E i nm vs w"
  by (induction vs arbitrary: w) (auto simp: prep_Exec_codec split: prod.splits option.splits)

lemma Save_outcome_codec:
  assumes "Save E s now resp sess w = (err, resp', sess', w')"
  shows "\<exists>resp3. Save (E\<lparr>securecookie_New := c\<rparr>) s2 now resp2 sess w = (err, resp3, sess', w')"
proof (cases "Begin w")
  case b: (Pair r0 w1)
  show ?thesis
  proof (cases r0)
    case (Some e)
    with b assms show ?thesis by (auto simp: Save_def Let_def)
  next
    case None
    note r0 = this
    show ?thesis
    proof (cases "tx_Exec_DELETE (ID sess) w1")
      case d: (Pair r1 w2)
      show ?thesis
      proof (cases r1)
        case (Some e)
        with b r0 d assms show ?thesis by (auto simp: Save_def Let_def)
      next
        case None
        note r1 = this
        show ?thesis
        proof (cases "tx_Prepare w2")
          case p: (Pair r2 w3)
          show ?thesis
          proof (cases r2)
            case (Some e)
            with b r0 d r1 p assms show ?thesis by (auto simp: Save_def Let_def)
          next
            case None
            with b r0 d r1 p assms show ?thesis
              by (auto simp: Save_def Let_def Save_values_codec split: prod.splits option.splits)
          qed
        qed
      qed
    qed
  qed
qed

subsection \<open>What Save stores and New loads\<close>

lemma stamped_marker: "map_of (stamped now sess) (Str SessionLastUpdated) = Some (Time now)"
  by (simp add: stamped_def update_conv')

lemma stamped_other:
  "k \<noteq> Str SessionLastUpdated \<Longrightarrow> map_of (stamped now sess) k = map_of (Values sess) k"
  by (simp add: stamped_def update_conv')

lemma text_of_Str [simp]: "text_of E (Str a) = a"
  by (simp add: text_of_def bind_arg_def)

lemma text_of_Time [simp]: "text_of E (Time t) = format_time E t"
  by (simp add: text_of_def bind_arg_def)

lemma rows_for_append: "rows_for i nm (xs @ ys) = rows_for i nm xs @ rows_for i nm ys"
  by (simp add: rows_for_def)

lemma rows_for_others: "rows_for i nm (filter (\<lambda>r. rid r \<noteq> i) rs) = []"
  by (induction rs) (simp_all add: rows_for_def)

lemma rows_for_own: "rows_for i nm (map (row_of E i nm) vs) = map (row_of E i nm) vs"
  by (induction vs) (simp_all add: rows_for_def row_of_def)

lemma Save_ok_rows_for:
  assumes "Save E s now resp sess w = (None, resp', sess', w')"
  shows "rows_for (ID sess) (name sess) (table w') =
           map (row_of E (ID sess) (name sess)) (stamped now sess)"
  using Save_ok [OF assms] by (simp add: rows_for_append rows_for_others rows_for_own)

lemma strings_only_stamped_keys:
  "strings_only vs \<Longrightarrow> kv \<in> set (AList.update (Str a) v vs) \<Longrightarrow> is_Str (fst kv)"
proof -
  assume so: "strings_only vs" and "kv \<in> set (AList.update (Str a) v vs)"
  then have "fst kv \<in> fst ` set (AList.update (Str a) v vs)" by (rule_tac imageI)
  then have "fst kv = Str a \<or> fst kv \<in> fst ` set vs" by (simp add: dom_update)
  moreover from so have "\<forall>x \<in> set vs. is_Str (fst x)"
    by (simp add: strings_only_def list_all_iff)
  ultimately show "is_Str (fst kv)" by (auto simp: is_Str_def)
qed

lemma is_Str_text_inj:
  "is_Str x \<Longrightarrow> is_Str y \<Longrightarrow> text_of E x = text_of E y \<Longrightarrow> x = y"
  by (cases x; cases y) (simp_all add: is_Str_def)

lemma distinct_text_keys:
  assumes "distinct (map fst vs)" and "\<forall>kv \<in> set vs. is_Str (fst kv)"
  shows "distinct (map (\<lambda>kv. text_of E (fst kv)) vs)"
proof -
  have "inj_on (text_of E) (set (map fst vs))"
    using assms(2) by (auto intro!: inj_onI dest: is_Str_text_inj)
  with assms(1) have "distinct (map (text_of E) (map fst vs))"
    by (simp only: distinct_map [of "text_of E" "map fst vs"] simp_thms)
  then show ?thesis by (simp only: map_map comp_def)
qed

lemma map_of_text:
  assumes "\<forall>kv \<in> set vs. is_Str (fst kv)"
  shows "map_of (map (\<lambda>kv. (text_of E (fst kv), text_of E (snd kv))) vs) k =
           map_option (text_of E) (map_of vs (Str k))"
  using assms
proof (induction vs)
  case Nil
  then show ?case by simp
next
  case (Cons kv vs)
  obtain a v where kv: "kv = (a, v)" by (cases kv)
  with Cons.prems obtain a' where a: "a = Str a'" by (cases a) (auto simp: is_Str_def)
  from Cons have "map_of (map (\<lambda>kv. (text_of E (fst kv), text_of E (snd kv))) vs) k =
           map_option (text_of E) (map_of vs (Str k))" by simp
  with kv a show ?case by simp
qed

lemma strings_only_value:
  "strings_only vs \<Longrightarrow> map_of vs k = Some v \<Longrightarrow> is_Str v"
  by (induction vs) (auto simp: strings_only_def split: if_splits)

lemma saved_attributes_stamped:
  assumes "strings_only (Values sess)"
  shows "map_option (text_of E) (map_of (stamped now sess) (Str k)) =
           saved_attributes E (Values sess) now k"
proof (cases "k = SessionLastUpdated")
  case True
  then show ?thesis by (simp add: stamped_marker saved_attributes_def)
next
  case False
  then have m: "map_of (stamped now sess) (Str k) = map_of (Values sess) (Str k)"
    by (simp add: stamped_other)
  show ?thesis
  proof (cases "map_of (Values sess) (Str k)")
    case None
    with m False show ?thesis by (simp add: saved_attributes_def)
  next
    case (Some v)
    with assms have "is_Str v" by (rule strings_only_value)
    then obtain b where "v = Str b" by (cases v) (auto simp: is_Str_def)
    with Some m False show ?thesis by (simp add: saved_attributes_def)
  qed
qed

lemma Save_ok_attributes:
  assumes ok: "Save E s now resp sess w = (None, resp', sess', w')"
      and d: "distinct (map fst (Values sess))"
      and so: "strings_only (Values sess)"
  shows "distinct (map rkey (rows_for (ID sess) (name sess) (table w')))"
    and "map_of (map (\<lambda>r. (rkey r, rvalue r)) (rows_for (ID sess) (name sess) (table w'))) =
           saved_attributes E (Values sess) now"
proof -
  have keys: "\<forall>kv \<in> set (stamped now sess). is_Str (fst kv)"
    using so strings_only_stamped_keys unfolding stamped_def by blast
  have dist: "distinct (map fst (stamped now sess))"
    using d by (simp add: stamped_def distinct_update)
  have rows: "rows_for (ID sess) (name sess) (table w') =
           map (row_of E (ID sess) (name sess)) (stamped now sess)"
    using ok by (rule Save_ok_rows_for)
  have "map rkey (map (row_of E (ID sess) (name sess)) (stamped now sess)) =
          map (\<lambda>kv. text_of E (fst kv)) (stamped now sess)"
    by (simp add: row_of_def comp_def)
  with rows have "map rkey (rows_for (ID sess) (name sess) (table w')) =
          map (\<lambda>kv. text_of E (fst kv)) (stamped now sess)"
    by (simp only:)
  with distinct_text_keys [OF dist keys, of E]
  show "distinct (map rkey (rows_for (ID sess) (name sess) (table w')))" by (simp only:)
  have "map (\<lambda>r. (rkey r, rvalue r)) (map (row_of E (ID sess) (name sess)) (stamped now sess)) =
          map (\<lambda>kv. (text_of E (fst kv), text_of E (snd kv))) (stamped now sess)"
    by (simp add: row_of_def comp_def)
  with rows have "map (\<lambda>r. (rkey r, rvalue r)) (rows_for (ID sess) (name sess) (table w')) =
          map (\<lambda>kv. (text_of E (fst kv), text_of E (snd kv))) (stamped now sess)"
    by (simp only:)
  then have "map_of (map (\<lambda>r. (rkey r, rvalue r)) (rows_for (ID sess) (name sess) (table w'))) k =
           saved_attributes E (Values sess) now k" for k
    using map_of_text [OF keys, of E k] saved_attributes_stamped [OF so, of E now k]
    by (simp only:)
  then show "map_of (map (\<lambda>r. (rkey r, rvalue r)) (rows_for (ID sess) (name sess) (table w'))) =
           saved_attributes E (Values sess) now" by (rule ext)
qed

lemma Query_values_ok:
  "Query_values i nm w = (Inr rows, w1) \<Longrightarrow>
     rows = map (\<lambda>r. (rkey r, rvalue r)) (rows_for i nm (table w))"
  by (auto simp: Query_values_def rows_for_def split: prod.splits option.splits
      dest: driver_call_keeps)

lemma New_rows_ok:
  "New_rows kvs sess0 w = (Inr sess2, w2) \<Longrightarrow>
     ID sess2 = ID sess0 \<and> name sess2 = name sess0 \<and>
     Values sess2 = fold (\<lambda>kv. AList.update (Str (fst kv)) (Str (snd kv))) kvs (Values sess0)"
proof (induction kvs arbitrary: sess0 w)
  case Nil
  then show ?case by (auto split: prod.splits option.splits)
next
  case (Cons kv kvs)
  obtain k v where kv: "kv = (k, v)" by (cases kv)
  from Cons.prems kv obtain w1 where
    "New_rows kvs (sess0\<lparr>Values := AList.update (Str k) (Str v) (Values sess0)\<rparr>) w1 = (Inr sess2, w2)"
    by (auto split: prod.splits option.splits)
  from Cons.IH [OF this] kv show ?case by simp
qed

lemma map_of_loaded:
  "distinct (map fst kvs) \<Longrightarrow>
     map_of (fold (\<lambda>kv. AList.update (Str (fst kv)) (Str (snd kv))) kvs al) (Str k) =
       (case map_of kvs k of Some v \<Rightarrow> Some (Str v) | None \<Rightarrow> map_of al (Str k))"
proof (induction kvs arbitrary: al)
  case Nil
  then show ?case by simp
next
  case (Cons kv kvs)
  obtain a b where kv: "kv = (a, b)" by (cases kv)
  from Cons.prems kv have d: "distinct (map fst kvs)" and fresh: "a \<notin> fst ` set kvs" by auto
  from fresh have none: "map_of kvs a = None" by (simp add: map_of_eq_None_iff)
  have "map_of (fold (\<lambda>kv. AList.update (Str (fst kv)) (Str (snd kv))) kvs
            (AList.update (Str a) (Str b) al)) (Str k) =
       (case map_of kvs k of Some v \<Rightarrow> Some (Str v)
        | None \<Rightarrow> map_of (AList.update (Str a) (Str b) al) (Str k))"
    using Cons.IH [OF d] by simp
  with kv none show ?case by (simp add: update_conv' split: option.splits)
qed

lemma map_of_loaded_other:
  "\<not> is_Str x \<Longrightarrow>
     map_of (fold (\<lambda>kv. AList.update (Str (fst kv)) (Str (snd kv))) kvs al) x = map_of al x"
proof (induction kvs arbitrary: al)
  case Nil
  then show ?case by simp
next
  case (Cons kv kvs)
  from Cons.prems have "x \<noteq> Str (fst kv)" by (auto simp: is_Str_def)
  with Cons show ?case by (simp add: update_conv')
qed

lemma New_reads_rows:
  assumes rc: "readCookie E s2 r CookieIdName = i" and ne: "i \<noteq> ''''"
      and new: "New E s2 r nm w = (Inr sess2, w2)"
      and d: "distinct (map rkey (rows_for i nm (table w)))"
  shows "ID sess2 = i \<and> name sess2 = nm \<and>
         (\<forall>k. map_of (Values sess2) (Str k) =
            map_option Str (map_of (map (\<lambda>r. (rkey r, rvalue r)) (rows_for i nm (table w))) k)) \<and>
         (\<forall>x. \<not> is_Str x \<longrightarrow> map_of (Values sess2) x = None)"
proof -
  from rc ne have sid: "store_id E s2 r w = (i, w)" by (simp add: store_id_def)
  with new obtain rows w1 where
    q: "Query_values i nm w = (Inr rows, w1)" and
    l: "New_rows rows ((NewSession nm)\<lparr>ID := i\<rparr>) w1 = (Inr sess2, w2)"
    by (auto simp: New_def Let_def NewSession_def split: prod.splits sum.splits)
  from q have rows: "rows = map (\<lambda>r. (rkey r, rvalue r)) (rows_for i nm (table w))"
    by (rule Query_values_ok)
  with d have dr: "distinct (map fst rows)" by (simp add: comp_def)
  from New_rows_ok [OF l] have
    res: "ID sess2 = i" "name sess2 = nm"
      "Values sess2 = fold (\<lambda>kv. AList.update (Str (fst kv)) (Str (snd kv))) rows []"
    by (simp_all add: NewSession_def)
  have a: "map_of (Values sess2) (Str k) = map_option Str (map_of rows k)" for k
    using map_of_loaded [OF dr, of "[]" k] res(3) by (simp split: option.splits)
  have b: "map_of (Values sess2) x = None" if "\<not> is_Str x" for x
    using map_of_loaded_other [OF that, of rows "[]"] res(3) by simp
  from res(1,2) a b rows show ?thesis by simp
qed

subsection \<open>The loop of Clean\<close>

lemma stale_marker_Nil [simp]: "\<not> stale_marker E cutoff [] i"
  by (simp add: stale_marker_def)

lemma stale_marker_Cons:
  "stale_marker E cutoff ((j, v) # ms) i \<longleftrightarrow>
     (j = i \<and> (case time_Parse E v of Inr t \<Rightarrow> t < cutoff | Inl e \<Rightarrow> False)) \<or>
     stale_marker E cutoff ms i"
  by (auto simp: stale_marker_def)

lemma stale_marker_table:
  "stale_marker E cutoff
     (map (\<lambda>r. (rid r, rvalue r)) (filter (\<lambda>r. rkey r = SessionLastUpdated) rs)) i
   \<longleftrightarrow> stale E cutoff rs i"
  by (auto simp: stale_marker_def stale_def)

lemma rows_Next_keeps: "rows_Next w = (e, w1) \<Longrightarrow> table w1 = table w"
  by (auto simp: rows_Next_def dest: driver_call_keeps)

lemma rows_Scan_keeps: "rows_Scan w = (e, w1) \<Longrightarrow> table w1 = table w"
  by (auto simp: rows_Scan_def dest: driver_call_keeps)

lemma Query_last_updated_ok:
  "Query_last_updated k w = (Inr ms, w1) \<Longrightarrow>
     ms = map (\<lambda>r. (rid r, rvalue r)) (filter (\<lambda>r. rkey r = k) (table w)) \<and>
     table w1 = table w"
  by (auto simp: Query_last_updated_def split: prod.splits option.splits
      dest: driver_call_keeps)

lemma Query_last_updated_failed:
  "Query_last_updated k w = (Inl e, w1) \<Longrightarrow> table w1 = table w"
  by (auto simp: Query_last_updated_def split: prod.splits option.splits
      dest: driver_call_keeps)

text \<open>One turn of the loop of \<open>Clean\<close>, by cases.\<close>

lemma Clean_rows_Cons_cases:
  assumes "Clean_rows E cutoff ((j, v) # ms) w = (err, w')"
  obtains
    (stopped) e where "err = Some e" "table w' = table w"
  | (deleted) t w3 where "time_Parse E v = Inr t" "t < cutoff"
      "table w3 = filter (\<lambda>r. rid r \<noteq> j) (table w)" "Clean_rows E cutoff ms w3 = (err, w')"
  | (kept) t w2 where "time_Parse E v = Inr t" "\<not> t < cutoff"
      "table w2 = table w" "Clean_rows E cutoff ms w2 = (err, w')"
proof -
  obtain r1 w1 where n: "rows_Next w = (r1, w1)" by (cases "rows_Next w")
  then have t1: "table w1 = table w" by (rule rows_Next_keeps)
  show ?thesis
  proof (cases r1)
    case (Some e)
    with assms n t1 show ?thesis by (auto intro: stopped)
  next
    case None
    note r1 = this
    obtain r2 w2 where sc: "rows_Scan w1 = (r2, w2)" by (cases "rows_Scan w1")
    then have t2: "table w2 = table w" using t1 by (simp add: rows_Scan_keeps)
    show ?thesis
    proof (cases r2)
      case (Some e)
      with assms n r1 sc t2 show ?thesis by (auto intro: stopped)
    next
      case None
      note r2 = this
      show ?thesis
      proof (cases "time_Parse E v")
        case (Inl e)
        with assms n r1 sc r2 t2 show ?thesis by (auto intro: stopped)
      next
        case (Inr t)
        note p = this
        show ?thesis
        proof (cases "t < cutoff")
          case False
          with assms n r1 sc r2 p have "Clean_rows E cutoff ms w2 = (err, w')" by simp
          with p False t2 show ?thesis by (rule kept)
        next
          case True
          obtain r3 w3 where del: "Exec_DELETE j w2 = (r3, w3)" by (cases "Exec_DELETE j w2")
          show ?thesis
          proof (cases r3)
            case (Some e)
            with del have "table w3 = table w2" by (simp add: Exec_DELETE_failed)
            with assms n r1 sc r2 p True del Some t2 show ?thesis by (auto intro: stopped)
          next
            case None
            with del have "table w3 = filter (\<lambda>r. rid r \<noteq> j) (table w2)"
              by (simp add: Exec_DELETE_ok)
            with t2 have t3: "table w3 = filter (\<lambda>r. rid r \<noteq> j) (table w)" by simp
            from assms n r1 sc r2 p True del None
            have "Clean_rows E cutoff ms w3 = (err, w')" by simp
            with p True t3 show ?thesis by (rule deleted)
          qed
        qed
      qed
    qed
  qed
qed

lemma Clean_rows_ok:
  "Clean_rows E cutoff ms w = (None, w') \<Longrightarrow>
     table w' = filter (\<lambda>r. \<not> stale_marker E cutoff ms (rid r)) (table w)"
proof (induction ms arbitrary: w)
  case Nil
  then show ?case by (auto dest: rows_Next_keeps)
next
  case (Cons m ms)
  obtain j v where m: "m = (j, v)" by (cases m)
  from Cons.prems [unfolded m] show ?case
  proof (cases rule: Clean_rows_Cons_cases)
    case (stopped e)
    then show ?thesis by simp
  next
    case (deleted t w3)
    from Cons.IH [OF deleted(4)] deleted(1,2,3) m show ?thesis
      by (auto simp: stale_marker_Cons intro: filter_cong)
  next
    case (kept t w2)
    from Cons.IH [OF kept(4)] kept(1,2,3) m show ?thesis
      by (auto simp: stale_marker_Cons intro: filter_cong)
  qed
qed

lemma Clean_rows_keeps:
  "Clean_rows E cutoff ms w = (err, w') \<Longrightarrow> \<not> stale_marker E cutoff ms i \<Longrightarrow>
     rows_of_id i (table w') = rows_of_id i (table w)"
proof (induction ms arbitrary: w)
  case Nil
  then show ?case by (auto dest: rows_Next_keeps)
next
  case (Cons m ms)
  obtain j v where m: "m = (j, v)" by (cases m)
  from Cons.prems(2) m have rest: "\<not> stale_marker E cutoff ms i"
    by (simp add: stale_marker_Cons)
  from Cons.prems(1) [unfolded m] show ?case
  proof (cases rule: Clean_rows_Cons_cases)
    case (stopped e)
    then show ?thesis by simp
  next
    case (deleted t w3)
    with Cons.prems(2) m have "j \<noteq> i" by (auto simp: stale_marker_Cons)
    then have "rows_of_id i (filter (\<lambda>r. rid r \<noteq> j) (table w)) = rows_of_id i (table w)"
      by (auto simp: rows_of_id_def intro: filter_cong)
    with Cons.IH [OF deleted(4) rest] deleted(3) show ?thesis by simp
  next
    case (kept t w2)
    with Cons.IH [OF kept(4) rest] show ?thesis by simp
  qed
qed

lemma fresh_not_stale: "fresh E cutoff rs i \<Longrightarrow> \<not> stale E cutoff rs i"
proof
  assume f: "fresh E cutoff rs i" and "stale E cutoff rs i"
  then obtain r where r: "r \<in> set rs" "rid r = i" "rkey r = SessionLastUpdated"
    and old: "case time_Parse E (rvalue r) of Inr t \<Rightarrow> t < cutoff | Inl e \<Rightarrow> False"
    by (auto simp: stale_def)
  from f r have "case time_Parse E (rvalue r) of Inr t \<Rightarrow> cutoff \<le> t | Inl e \<Rightarrow> False"
    by (simp add: fresh_def)
  with old show False by (cases "time_Parse E (rvalue r)") simp_all
qed

lemma Clean_cutoff:
  "inactive \<noteq> - 9223372036854775808 \<Longrightarrow> time_Add now (- inactive) = now - sint inactive"
  by (simp add: time_Add_def sint_neg)

subsection \<open>SetKeys\<close>

text \<open>
  C7. \<open>SetKeys\<close> panics exactly when the block key is not nil and its length is none of
  16, 24 and 32; in every other case (a nil block key, or one of a valid length) it
  returns the store with both keys installed.
\<close>

theorem SetKeys_panics_iff:
  "((\<exists>p. SetKeys s hash block = Inl p) \<longleftrightarrow>
      (\<exists>b. block = Some b \<and> length b \<noteq> 16 \<and> length b \<noteq> 24 \<and> length b \<noteq> 32)) \<and>
   ((block = None \<or> (\<exists>b. block = Some b \<and> (length b = 16 \<or> length b = 24 \<or> length b = 32)))
      \<longrightarrow> SetKeys s hash block = Inr (s\<lparr>hashKey := hash, blockKey := block\<rparr>))"
  by (cases block) (auto simp: SetKeys_def len_def)

theorem SetKeys_panics_iff_witness:
  "SetKeys \<lparr>hashKey = None, blockKey = None\<rparr> (Some ''h'') None
     = Inr \<lparr>hashKey = Some ''h'', blockKey = None\<rparr> \<and>
   SetKeys \<lparr>hashKey = None, blockKey = None\<rparr> (Some ''h'') (Some ''0123456789abcdef'')
     = Inr \<lparr>hashKey = Some ''h'', blockKey = Some ''0123456789abcdef''\<rparr> \<and>
   (\<exists>p. SetKeys \<lparr>hashKey = None, blockKey = None\<rparr> (Some ''h'') (Some ''short'') = Inl p) \<and>
   (\<exists>p. SetKeys \<lparr>hashKey = None, blockKey = None\<rparr> (Some ''h'') (Some '''') = Inl p)"
  using SetKeys_panics_iff [of "\<lparr>hashKey = None, blockKey = None\<rparr>" "Some ''h''" None]
    SetKeys_panics_iff [of "\<lparr>hashKey = None, blockKey = None\<rparr>" "Some ''h''"
      "Some ''0123456789abcdef''"]
    SetKeys_panics_iff [of "\<lparr>hashKey = None, blockKey = None\<rparr>" "Some ''h''" "Some ''short''"]
    SetKeys_panics_iff [of "\<lparr>hashKey = None, blockKey = None\<rparr>" "Some ''h''" "Some ''''"]
  by simp

subsection \<open>Delete\<close>

text \<open>
  C8. \<open>Delete\<close> is idempotent. After a \<open>Delete\<close> that returned no error the table has no
  row of the session's id, whatever the name. On an id that has no rows, \<open>Delete\<close> leaves
  the table as it is and returns only what the driver call itself reports: the absence of
  rows is never an error. So with a driver that reports no fault, a \<open>Delete\<close> on an id
  with no rows returns no error and changes nothing, and so does the next one.
\<close>

theorem Delete_idempotent:
  "(Delete sess w = (None, w') \<longrightarrow>
      (\<forall>r \<in> set (table w'). rid r \<noteq> ID sess) \<and>
      fst (Delete sess w') = fst (driver_call w') \<and>
      table (snd (Delete sess w')) = table w') \<and>
   ((\<forall>r \<in> set (table w). rid r \<noteq> ID sess) \<longrightarrow>
      fst (Delete sess w) = fst (driver_call w) \<and>
      table (snd (Delete sess w)) = table w) \<and>
   ((\<forall>r \<in> set (table w). rid r \<noteq> ID sess) \<and> faults w = [] \<longrightarrow>
      Delete sess w = (None, w) \<and> Delete sess (snd (Delete sess w)) = (None, w))"
proof -
  have absent: "fst (Delete sess v) = fst (driver_call v) \<and> table (snd (Delete sess v)) = table v"
    if "\<forall>r \<in> set (table v). rid r \<noteq> ID sess" for v
  proof (cases "Delete sess v")
    case (Pair e v')
    show ?thesis
    proof (cases e)
      case None
      with Pair have "table v' = filter (\<lambda>r. rid r \<noteq> ID sess) (table v)"
        by (simp add: Delete_def Exec_DELETE_ok)
      with that Pair show ?thesis
        by (simp add: Delete_def filter_absent Exec_DELETE_error [of "ID sess" v, symmetric])
    next
      case (Some err)
      with Pair show ?thesis
        using Exec_DELETE_failed [of "ID sess" v err v'] Exec_DELETE_error [of "ID sess" v]
        by (simp add: Delete_def)
    qed
  qed
  have gone: "\<forall>r \<in> set (table w'). rid r \<noteq> ID sess" if "Delete sess w = (None, w')"
    using that by (auto simp: Delete_def dest: Exec_DELETE_ok)
  have quiet: "Delete sess w = (None, w)"
    if "\<forall>r \<in> set (table w). rid r \<noteq> ID sess" and "faults w = []"
    using that by (simp add: Delete_def Exec_DELETE_def driver_call_no_faults filter_absent)
  show ?thesis
    using absent [of w] absent [of w'] gone quiet by auto
qed

theorem Delete_idempotent_witness:
  "Delete \<lparr>ID = ''a'', Values = [], name = ''n''\<rparr>
     (test_world [\<lparr>rid = ''b'', rname = ''n'', rkey = ''k'', rvalue = ''v''\<rparr>] [])
   = (None, test_world [\<lparr>rid = ''b'', rname = ''n'', rkey = ''k'', rvalue = ''v''\<rparr>] []) \<and>
   Delete \<lparr>ID = ''a'', Values = [], name = ''n''\<rparr>
     (snd (Delete \<lparr>ID = ''a'', Values = [], name = ''n''\<rparr>
        (test_world [\<lparr>rid = ''b'', rname = ''n'', rkey = ''k'', rvalue = ''v''\<rparr>] [])))
   = (None, test_world [\<lparr>rid = ''b'', rname = ''n'', rkey = ''k'', rvalue = ''v''\<rparr>] []) \<and>
   Delete \<lparr>ID = ''b'', Values = [], name = ''n''\<rparr>
     (test_world [\<lparr>rid = ''b'', rname = ''n'', rkey = ''k'', rvalue = ''v''\<rparr>,
                  \<lparr>rid = ''b'', rname = ''m'', rkey = ''k'', rvalue = ''v''\<rparr>] [])
   = (None, test_world [] []) \<and>
   rows_of_id ''b'' (table (test_world [] [])) = []"
  using Delete_idempotent [of "\<lparr>ID = ''a'', Values = [], name = ''n''\<rparr>"
      "test_world [\<lparr>rid = ''b'', rname = ''n'', rkey = ''k'', rvalue = ''v''\<rparr>] []"
      "test_world [\<lparr>rid = ''b'', rname = ''n'', rkey = ''k'', rvalue = ''v''\<rparr>] []"]
    Delete_idempotent [of "\<lparr>ID = ''b'', Values = [], name = ''n''\<rparr>"
      "test_world [\<lparr>rid = ''b'', rname = ''n'', rkey = ''k'', rvalue = ''v''\<rparr>,
                  \<lparr>rid = ''b'', rname = ''m'', rkey = ''k'', rvalue = ''v''\<rparr>] []"
      "test_world [] []"]
  by (simp add: test_world_def Delete_def Exec_DELETE_def driver_call_def rows_of_id_def)

subsection \<open>Identity\<close>

lemma readCookie_absent:
  "request_Cookie r cname = Inl e \<Longrightarrow> readCookie E s r cname = ''''"
  by (simp add: readCookie_def)

lemma readCookie_undecodable:
  "request_Cookie r cname = Inr tok \<Longrightarrow> Decode (cookrw E s) cname tok = Inl e \<Longrightarrow>
     readCookie E s r cname = ''''"
  by (simp add: readCookie_def)


text \<open>
  C6. \<open>store_id\<close> returns a string and has no error to return. For a request with no
  tracking cookie, and for a request whose cookie does not decode, it is the next 64 bytes
  of the random source, which is read on from there: 64 bytes long, so not empty.
\<close>

theorem store_id_mints:
  assumes "(\<exists>e. request_Cookie r CookieIdName = Inl e) \<or>
           (\<exists>tok e. request_Cookie r CookieIdName = Inr tok \<and>
              Decode (cookrw E s) CookieIdName tok = Inl e)"
  shows "store_id E s r w =
           (map (rand w) [drawn w ..< drawn w + 64], w\<lparr>drawn := drawn w + 64\<rparr>) \<and>
         length (fst (store_id E s r w)) = 64 \<and>
         fst (store_id E s r w) \<noteq> ''''"
proof -
  from assms have "readCookie E s r CookieIdName = ''''"
    by (auto simp: readCookie_absent readCookie_undecodable)
  then have eq: "store_id E s r w = GenerateRandomKey 64 w"
    by (simp add: store_id_def)
  have len: "length (fst (GenerateRandomKey 64 w)) = 64"
    by (simp add: GenerateRandomKey_def)
  then have "fst (GenerateRandomKey 64 w) \<noteq> ''''" by auto
  with eq len show ?thesis by (simp add: GenerateRandomKey_def)
qed

theorem store_id_mints_witness:
  "request_Cookie \<lparr>cookies = []\<rparr> CookieIdName = Inl ErrNoCookie \<and>
   fst (store_id test_env test_store \<lparr>cookies = []\<rparr> (test_world [] [])) = replicate 64 (CHR ''r'') \<and>
   request_Cookie \<lparr>cookies = [(CookieIdName, ''garbage'')]\<rparr> CookieIdName = Inr ''garbage'' \<and>
   Decode (cookrw test_env test_store) CookieIdName ''garbage'' = Inl (CodecError 1) \<and>
   length (fst (store_id test_env test_store \<lparr>cookies = [(CookieIdName, ''garbage'')]\<rparr>
                  (test_world [] []))) = 64"
proof -
  have a: "request_Cookie \<lparr>cookies = []\<rparr> CookieIdName = Inl ErrNoCookie"
    by (simp add: request_Cookie_def)
  have b: "request_Cookie \<lparr>cookies = [(CookieIdName, ''garbage'')]\<rparr> CookieIdName = Inr ''garbage''"
    by (simp add: request_Cookie_def)
  have c: "Decode (cookrw test_env test_store) CookieIdName ''garbage'' = Inl (CodecError 1)"
    by (simp add: cookrw_def test_env_def test_store_def test_codec_def CookieIdName_def)
  have d: "map (rand (test_world [] [])) [drawn (test_world [] []) ..< drawn (test_world [] []) + 64]
             = replicate 64 (CHR ''r'')"
    by (simp add: test_world_def map_replicate_const)
  show ?thesis
    using a b c d
      store_id_mints [of "\<lparr>cookies = []\<rparr>" test_env test_store "test_world [] []"]
      store_id_mints [of "\<lparr>cookies = [(CookieIdName, ''garbage'')]\<rparr>" test_env test_store
        "test_world [] []"]
    by simp
qed

subsection \<open>Save: failure\<close>

text \<open>
  C4. When \<open>Save\<close> returns an error, the table is as it was before the call and no
  transaction is left open (none was open before): readers see no partial state. The
  error is the one of the step that failed: of \<open>Begin\<close>, of the DELETE, of the
  prepare, or of the first INSERT that fails, wherever in the values it comes; in the three
  last cases the transaction has been rolled back.
\<close>

theorem Save_failure_rolls_back:
  assumes "Save E s now resp sess w = (err, resp', sess', w')"
  shows
    "(err \<noteq> None \<longrightarrow> table w' = table w \<and> (tx w = None \<longrightarrow> tx w' = None)) \<and>
     (\<forall>e w1. Begin w = (Some e, w1) \<longrightarrow> err = Some e) \<and>
     (\<forall>e w1 w2. Begin w = (None, w1) \<and> tx_Exec_DELETE (ID sess) w1 = (Some e, w2)
        \<longrightarrow> err = Some e \<and> tx w' = None) \<and>
     (\<forall>e w1 w2 w3. Begin w = (None, w1) \<and> tx_Exec_DELETE (ID sess) w1 = (None, w2) \<and>
        tx_Prepare w2 = (Some e, w3)
        \<longrightarrow> err = Some e \<and> tx w' = None) \<and>
     (\<forall>e w1 w2 w3 w4 w5 pre k v post.
        Begin w = (None, w1) \<and> tx_Exec_DELETE (ID sess) w1 = (None, w2) \<and>
        tx_Prepare w2 = (None, w3) \<and> stamped now sess = pre @ (k, v) # post \<and>
        Save_values E (ID sess) (name sess) pre w3 = (None, w4) \<and>
        prep_Exec E (ID sess) (name sess) k v w4 = (Some e, w5)
        \<longrightarrow> err = Some e \<and> tx w' = None)"
proof (intro conjI allI impI)
  assume "err \<noteq> None"
  then obtain e where "err = Some e" by auto
  with assms show "table w' = table w" using Save_failed by blast
next
  assume "err \<noteq> None" and "tx w = None"
  then obtain e where "err = Some e" by auto
  with assms \<open>tx w = None\<close> show "tx w' = None" using Save_failed by blast
next
  fix e w1 assume "Begin w = (Some e, w1)"
  with assms show "err = Some e" by (simp add: Save_def Let_def)
next
  fix e w1 w2
  assume h: "Begin w = (None, w1) \<and> tx_Exec_DELETE (ID sess) w1 = (Some e, w2)"
  with assms show "err = Some e" by (auto simp: Save_def Let_def)
  from h assms show "tx w' = None" by (auto simp: Save_def Let_def)
next
  fix e w1 w2 w3
  assume h: "Begin w = (None, w1) \<and> tx_Exec_DELETE (ID sess) w1 = (None, w2) \<and>
        tx_Prepare w2 = (Some e, w3)"
  with assms show "err = Some e" by (auto simp: Save_def Let_def)
  from h assms show "tx w' = None" by (auto simp: Save_def Let_def)
next
  fix e w1 w2 w3 w4 w5 pre k v post
  assume h: "Begin w = (None, w1) \<and> tx_Exec_DELETE (ID sess) w1 = (None, w2) \<and>
        tx_Prepare w2 = (None, w3) \<and> stamped now sess = pre @ (k, v) # post \<and>
        Save_values E (ID sess) (name sess) pre w3 = (None, w4) \<and>
        prep_Exec E (ID sess) (name sess) k v w4 = (Some e, w5)"
  then have "Save_values E (ID sess) (name sess) (stamped now sess) w3 = (Some e, w5)"
    using Save_values_first_failure [of E "ID sess" "name sess" pre w3 w4 k v e w5 post]
    by simp
  with h assms have r: "err = Some e \<and> w' = tx_Rollback w5"
    by (auto simp: Save_def Let_def stamped_def)
  from r show "err = Some e" by simp
  from r show "tx w' = None" by simp
qed

theorem Save_failure_rolls_back_witness:
  "Save test_env test_store 864000000000000 [] test_session
       (test_world test_rows [None, None, None, Some (DriverError 7)])
     = (Some (DriverError 7),
        [\<lparr>Name = CookieIdName, Value = ''sess_sessionid|abc'', Path = ''/'', HttpOnly = True\<rparr>],
        test_session\<lparr>Values := [(Str ''user'', Str ''bob''),
                                 (Str SessionLastUpdated, Time 864000000000000)]\<rparr>,
        test_world test_rows []) \<and>
   table (test_world test_rows []) =
     table (test_world test_rows [None, None, None, Some (DriverError 7)]) \<and>
   tx (test_world test_rows []) = None"
proof -
  have run: "Save test_env test_store 864000000000000 [] test_session
       (test_world test_rows [None, None, None, Some (DriverError 7)])
     = (Some (DriverError 7),
        [\<lparr>Name = CookieIdName, Value = ''sess_sessionid|abc'', Path = ''/'', HttpOnly = True\<rparr>],
        test_session\<lparr>Values := [(Str ''user'', Str ''bob''),
                                 (Str SessionLastUpdated, Time 864000000000000)]\<rparr>,
        test_world test_rows [])"
    by (simp add: Save_defs test_defs)
  have "tx (test_world test_rows [None, None, None, Some (DriverError 7)]) = None"
    by (simp add: test_world_def)
  with Save_failure_rolls_back [OF run] run show ?thesis by simp
qed

subsection \<open>Save: the cookie\<close>

text \<open>
  C5, as stated, at a store that has no hash key, whose codec cannot encode: \<open>Save\<close> is
  called, the transaction fails at its start, and the response holds no cookie.
\<close>

theorem Save_without_cookie_counterexample:
  "Save test_env \<lparr>hashKey = None, blockKey = None\<rparr> 864000000000000 [] test_session
       (test_world [] [Some (DriverError 7)])
     = (Some (DriverError 7), [],
        test_session\<lparr>Values := [(Str ''user'', Str ''bob''),
                                 (Str SessionLastUpdated, Time 864000000000000)]\<rparr>,
        test_world [] [])"
  by (simp add: Save_defs test_defs)

text \<open>
  C5, amended. Whenever the codec encodes the session's id, \<open>Save\<close> puts the identity
  cookie on the response whatever becomes of the transaction, also when it cannot even
  begin; so after a \<open>Save\<close> that failed on an id that had no rows, the client holds a
  cookie for an id that still has no rows.
\<close>

theorem Save_cookie_before_transaction:
  assumes "Encode (cookrw E s) CookieIdName (ID sess) = Inr tok"
      and "Save E s now resp sess w = (err, resp', sess', w')"
  shows "resp' = resp @ [\<lparr>Name = CookieIdName, Value = tok, Path = ''/'', HttpOnly = True\<rparr>] \<and>
         (err \<noteq> None \<and> (\<forall>r \<in> set (table w). rid r \<noteq> ID sess)
            \<longrightarrow> (\<forall>r \<in> set (table w'). rid r \<noteq> ID sess))"
proof
  from assms show "resp' = resp @ [\<lparr>Name = CookieIdName, Value = tok, Path = ''/'', HttpOnly = True\<rparr>]"
    using Save_response_session [of E s now resp sess w err resp' sess' w']
    by (simp add: writeCookie_def SetCookie_def)
next
  show "err \<noteq> None \<and> (\<forall>r \<in> set (table w). rid r \<noteq> ID sess)
            \<longrightarrow> (\<forall>r \<in> set (table w'). rid r \<noteq> ID sess)"
  proof
    assume h: "err \<noteq> None \<and> (\<forall>r \<in> set (table w). rid r \<noteq> ID sess)"
    then obtain e where "err = Some e" by auto
    with assms(2) have "table w' = table w" using Save_failed by blast
    with h show "\<forall>r \<in> set (table w'). rid r \<noteq> ID sess" by simp
  qed
qed

theorem Save_cookie_before_transaction_witness:
  "Encode (cookrw test_env test_store) CookieIdName (ID test_session) = Inr ''sess_sessionid|abc'' \<and>
   Save test_env test_store 864000000000000 [] test_session
       (test_world [] [Some (DriverError 7)])
     = (Some (DriverError 7),
        [\<lparr>Name = CookieIdName, Value = ''sess_sessionid|abc'', Path = ''/'', HttpOnly = True\<rparr>],
        test_session\<lparr>Values := [(Str ''user'', Str ''bob''),
                                 (Str SessionLastUpdated, Time 864000000000000)]\<rparr>,
        test_world [] []) \<and>
   rows_of_id (ID test_session) (table (test_world [] [])) = []"
proof -
  have enc: "Encode (cookrw test_env test_store) CookieIdName (ID test_session)
      = Inr ''sess_sessionid|abc''"
    by (simp add: cookrw_def test_defs)
  have run: "Save test_env test_store 864000000000000 [] test_session
       (test_world [] [Some (DriverError 7)])
     = (Some (DriverError 7),
        [\<lparr>Name = CookieIdName, Value = ''sess_sessionid|abc'', Path = ''/'', HttpOnly = True\<rparr>],
        test_session\<lparr>Values := [(Str ''user'', Str ''bob''),
                                 (Str SessionLastUpdated, Time 864000000000000)]\<rparr>,
        test_world [] [])"
    by (simp add: Save_defs test_defs)
  have empty: "\<forall>r \<in> set (table (test_world [] [Some (DriverError 7)])). rid r \<noteq> ID test_session"
    by (simp add: test_world_def)
  from Save_cookie_before_transaction [OF enc run] enc run empty show ?thesis
    by (simp add: rows_of_id_def test_world_def)
qed

text \<open>
  C10. When the codec fails to encode the session's id, \<open>Save\<close> sets no cookie, and its
  error, the session and the database come out exactly as they do with any other codec
  and store, one that encodes too: the transaction runs all the same and the failure of
  the encoding is reported nowhere.
\<close>

theorem Save_swallows_encode_failure:
  assumes "Encode (cookrw E s) CookieIdName (ID sess) = Inl e"
      and "Save E s now resp sess w = (err, resp', sess', w')"
  shows "resp' = resp \<and>
         (\<forall>c s2 resp2. \<exists>resp3. Save (E\<lparr>securecookie_New := c\<rparr>) s2 now resp2 sess w =
             (err, resp3, sess', w'))"
proof
  from assms show "resp' = resp"
    using Save_response_session [of E s now resp sess w err resp' sess' w']
    by (simp add: writeCookie_def)
next
  from assms(2) show "\<forall>c s2 resp2. \<exists>resp3. Save (E\<lparr>securecookie_New := c\<rparr>) s2 now resp2 sess w =
             (err, resp3, sess', w')"
    by (intro allI) (rule Save_outcome_codec)
qed

theorem Save_swallows_encode_failure_witness:
  "Encode (cookrw test_env \<lparr>hashKey = None, blockKey = None\<rparr>) CookieIdName (ID test_session)
     = Inl (CodecError 0) \<and>
   Save test_env \<lparr>hashKey = None, blockKey = None\<rparr> 864000000000000 [] test_session
       (test_world [] [])
     = (None, [],
        test_session\<lparr>Values := [(Str ''user'', Str ''bob''),
                                 (Str SessionLastUpdated, Time 864000000000000)]\<rparr>,
        test_world [\<lparr>rid = ''abc'', rname = ''main'', rkey = ''user'', rvalue = ''bob''\<rparr>,
                    \<lparr>rid = ''abc'', rname = ''main'', rkey = SessionLastUpdated,
                       rvalue = ''1970-01-11T00:00:00Z''\<rparr>] []) \<and>
   (\<exists>resp3. Save (test_env\<lparr>securecookie_New := test_codec\<rparr>) test_store 864000000000000 []
       test_session (test_world [] [])
     = (None, resp3,
        test_session\<lparr>Values := [(Str ''user'', Str ''bob''),
                                 (Str SessionLastUpdated, Time 864000000000000)]\<rparr>,
        test_world [\<lparr>rid = ''abc'', rname = ''main'', rkey = ''user'', rvalue = ''bob''\<rparr>,
                    \<lparr>rid = ''abc'', rname = ''main'', rkey = SessionLastUpdated,
                       rvalue = ''1970-01-11T00:00:00Z''\<rparr>] []))"
proof -
  have enc: "Encode (cookrw test_env \<lparr>hashKey = None, blockKey = None\<rparr>) CookieIdName
      (ID test_session) = Inl (CodecError 0)"
    by (simp add: cookrw_def test_defs)
  have run: "Save test_env \<lparr>hashKey = None, blockKey = None\<rparr> 864000000000000 [] test_session
       (test_world [] [])
     = (None, [],
        test_session\<lparr>Values := [(Str ''user'', Str ''bob''),
                                 (Str SessionLastUpdated, Time 864000000000000)]\<rparr>,
        test_world [\<lparr>rid = ''abc'', rname = ''main'', rkey = ''user'', rvalue = ''bob''\<rparr>,
                    \<lparr>rid = ''abc'', rname = ''main'', rkey = SessionLastUpdated,
                       rvalue = ''1970-01-11T00:00:00Z''\<rparr>] [])"
    by (simp add: Save_defs test_defs)
  from Save_swallows_encode_failure [OF enc run] enc run show ?thesis by blast
qed

subsection \<open>Save: success\<close>

text \<open>
  C9. The DELETE of \<open>Save\<close> is by id alone. After a \<open>Save\<close> that returned no error,
  every row of the session's id bears the session's name: a row that the id had under
  another name is gone. The rows of other ids are as before.
\<close>

theorem Save_deletes_by_id:
  assumes "Save E s now resp sess w = (None, resp', sess', w')"
  shows "(\<forall>r \<in> set (table w'). rid r = ID sess \<longrightarrow> rname r = name sess) \<and>
         (\<forall>r \<in> set (table w). rid r = ID sess \<and> rname r \<noteq> name sess \<longrightarrow> r \<notin> set (table w')) \<and>
         filter (\<lambda>r. rid r \<noteq> ID sess) (table w') = filter (\<lambda>r. rid r \<noteq> ID sess) (table w)"
proof -
  from assms have t: "table w' = filter (\<lambda>r. rid r \<noteq> ID sess) (table w) @
           map (row_of E (ID sess) (name sess)) (stamped now sess)"
    by (simp add: Save_ok)
  have new: "\<forall>r \<in> set (map (row_of E (ID sess) (name sess)) (stamped now sess)).
      rid r = ID sess \<and> rname r = name sess"
    by (auto simp: row_of_def)
  then have "filter (\<lambda>r. rid r \<noteq> ID sess) (map (row_of E (ID sess) (name sess)) (stamped now sess)) = []"
    by (auto simp: filter_empty_conv)
  with t have 3: "filter (\<lambda>r. rid r \<noteq> ID sess) (table w') = filter (\<lambda>r. rid r \<noteq> ID sess) (table w)"
    by simp
  have 1: "\<forall>r \<in> set (table w'). rid r = ID sess \<longrightarrow> rname r = name sess"
  proof (intro ballI impI)
    fix r assume "r \<in> set (table w')" and i: "rid r = ID sess"
    with t have "r \<in> set (filter (\<lambda>r. rid r \<noteq> ID sess) (table w)) \<or>
        r \<in> set (map (row_of E (ID sess) (name sess)) (stamped now sess))"
      by (simp only: set_append Un_iff)
    with i have "r \<in> set (map (row_of E (ID sess) (name sess)) (stamped now sess))"
      by simp
    with new show "rname r = name sess" by blast
  qed
  have 2: "\<forall>r \<in> set (table w). rid r = ID sess \<and> rname r \<noteq> name sess \<longrightarrow> r \<notin> set (table w')"
    using 1 by blast
  from 1 2 3 show ?thesis by simp
qed

theorem Save_deletes_by_id_witness:
  "Save test_env test_store 864000000000000 [] test_session (test_world test_rows [])
     = (None,
        [\<lparr>Name = CookieIdName, Value = ''sess_sessionid|abc'', Path = ''/'', HttpOnly = True\<rparr>],
        test_session\<lparr>Values := [(Str ''user'', Str ''bob''),
                                 (Str SessionLastUpdated, Time 864000000000000)]\<rparr>,
        test_world [\<lparr>rid = ''zzz'', rname = ''main'', rkey = ''user'', rvalue = ''eve''\<rparr>,
                    \<lparr>rid = ''abc'', rname = ''main'', rkey = ''user'', rvalue = ''bob''\<rparr>,
                    \<lparr>rid = ''abc'', rname = ''main'', rkey = SessionLastUpdated,
                       rvalue = ''1970-01-11T00:00:00Z''\<rparr>] []) \<and>
   \<lparr>rid = ''abc'', rname = ''other'', rkey = ''k'', rvalue = ''v''\<rparr> \<in> set test_rows \<and>
   \<lparr>rid = ''abc'', rname = ''other'', rkey = ''k'', rvalue = ''v''\<rparr> \<notin> set (table (test_world
         [\<lparr>rid = ''zzz'', rname = ''main'', rkey = ''user'', rvalue = ''eve''\<rparr>,
          \<lparr>rid = ''abc'', rname = ''main'', rkey = ''user'', rvalue = ''bob''\<rparr>,
          \<lparr>rid = ''abc'', rname = ''main'', rkey = SessionLastUpdated,
             rvalue = ''1970-01-11T00:00:00Z''\<rparr>] [])) \<and>
   rows_of_id (ID test_session) (table (test_world
         [\<lparr>rid = ''zzz'', rname = ''main'', rkey = ''user'', rvalue = ''eve''\<rparr>,
          \<lparr>rid = ''abc'', rname = ''main'', rkey = ''user'', rvalue = ''bob''\<rparr>,
          \<lparr>rid = ''abc'', rname = ''main'', rkey = SessionLastUpdated,
             rvalue = ''1970-01-11T00:00:00Z''\<rparr>] []))
     = rows_for (ID test_session) (name test_session) (table (test_world
         [\<lparr>rid = ''zzz'', rname = ''main'', rkey = ''user'', rvalue = ''eve''\<rparr>,
          \<lparr>rid = ''abc'', rname = ''main'', rkey = ''user'', rvalue = ''bob''\<rparr>,
          \<lparr>rid = ''abc'', rname = ''main'', rkey = SessionLastUpdated,
             rvalue = ''1970-01-11T00:00:00Z''\<rparr>] []))"
proof -
  have run: "Save test_env test_store 864000000000000 [] test_session (test_world test_rows [])
     = (None,
        [\<lparr>Name = CookieIdName, Value = ''sess_sessionid|abc'', Path = ''/'', HttpOnly = True\<rparr>],
        test_session\<lparr>Values := [(Str ''user'', Str ''bob''),
                                 (Str SessionLastUpdated, Time 864000000000000)]\<rparr>,
        test_world [\<lparr>rid = ''zzz'', rname = ''main'', rkey = ''user'', rvalue = ''eve''\<rparr>,
                    \<lparr>rid = ''abc'', rname = ''main'', rkey = ''user'', rvalue = ''bob''\<rparr>,
                    \<lparr>rid = ''abc'', rname = ''main'', rkey = SessionLastUpdated,
                       rvalue = ''1970-01-11T00:00:00Z''\<rparr>] [])"
    by (simp add: Save_defs test_defs)
  have old: "\<lparr>rid = ''abc'', rname = ''other'', rkey = ''k'', rvalue = ''v''\<rparr> \<in> set test_rows"
    by (simp add: test_rows_def)
  have other: "rid \<lparr>rid = ''abc'', rname = ''other'', rkey = ''k'', rvalue = ''v''\<rparr>
        = ID test_session \<and>
      rname \<lparr>rid = ''abc'', rname = ''other'', rkey = ''k'', rvalue = ''v''\<rparr>
        \<noteq> name test_session"
    by (simp add: test_session_def)
  from Save_deletes_by_id [OF run] old other
  have gone: "\<lparr>rid = ''abc'', rname = ''other'', rkey = ''k'', rvalue = ''v''\<rparr> \<notin> set (table (test_world
         [\<lparr>rid = ''zzz'', rname = ''main'', rkey = ''user'', rvalue = ''eve''\<rparr>,
          \<lparr>rid = ''abc'', rname = ''main'', rkey = ''user'', rvalue = ''bob''\<rparr>,
          \<lparr>rid = ''abc'', rname = ''main'', rkey = SessionLastUpdated,
             rvalue = ''1970-01-11T00:00:00Z''\<rparr>] []))"
    by blast
  have only: "rows_of_id (ID test_session) (table (test_world
         [\<lparr>rid = ''zzz'', rname = ''main'', rkey = ''user'', rvalue = ''eve''\<rparr>,
          \<lparr>rid = ''abc'', rname = ''main'', rkey = ''user'', rvalue = ''bob''\<rparr>,
          \<lparr>rid = ''abc'', rname = ''main'', rkey = SessionLastUpdated,
             rvalue = ''1970-01-11T00:00:00Z''\<rparr>] []))
     = rows_for (ID test_session) (name test_session) (table (test_world
         [\<lparr>rid = ''zzz'', rname = ''main'', rkey = ''user'', rvalue = ''eve''\<rparr>,
          \<lparr>rid = ''abc'', rname = ''main'', rkey = ''user'', rvalue = ''bob''\<rparr>,
          \<lparr>rid = ''abc'', rname = ''main'', rkey = SessionLastUpdated,
             rvalue = ''1970-01-11T00:00:00Z''\<rparr>] []))"
    by (simp add: rows_of_id_def rows_for_def test_defs)
  from run old gone only show ?thesis by (intro conjI)
qed

text \<open>
  C1. After a \<open>Save\<close> that returned no error, of a session whose values are a mapping from
  string keys to string values, the rows stored for the session's id and name are exactly
  that mapping with the last-updated marker, one row per key: whatever the table held for
  the id before is gone. A \<open>New\<close> that then resolves the same id (its cookie decodes to
  it) under the same name, and reads without error, returns a session with that id, that
  name and exactly those attributes as its values.
\<close>

theorem Save_then_New:
  assumes ok: "Save E s now resp sess w = (None, resp', sess', w')"
      and d: "distinct (map fst (Values sess))"
      and so: "strings_only (Values sess)"
  shows "distinct (map rkey (rows_for (ID sess) (name sess) (table w'))) \<and>
         map_of (map (\<lambda>r. (rkey r, rvalue r)) (rows_for (ID sess) (name sess) (table w'))) =
           saved_attributes E (Values sess) now \<and>
         (\<forall>s2 r sess2 w2.
            readCookie E s2 r CookieIdName = ID sess \<and> ID sess \<noteq> '''' \<and>
            New E s2 r (name sess) w' = (Inr sess2, w2) \<longrightarrow>
              ID sess2 = ID sess \<and> name sess2 = name sess \<and>
              (\<forall>k. map_of (Values sess2) (Str k) =
                 map_option Str (saved_attributes E (Values sess) now k)) \<and>
              (\<forall>x. \<not> is_Str x \<longrightarrow> map_of (Values sess2) x = None))"
proof (intro conjI allI impI)
  show dk: "distinct (map rkey (rows_for (ID sess) (name sess) (table w')))"
    using ok d so by (rule Save_ok_attributes(1))
  show at: "map_of (map (\<lambda>r. (rkey r, rvalue r)) (rows_for (ID sess) (name sess) (table w'))) =
           saved_attributes E (Values sess) now"
    using ok d so by (rule Save_ok_attributes(2))
  fix s2 r sess2 w2
  assume h: "readCookie E s2 r CookieIdName = ID sess \<and> ID sess \<noteq> '''' \<and>
            New E s2 r (name sess) w' = (Inr sess2, w2)"
  then have n: "ID sess2 = ID sess \<and> name sess2 = name sess \<and>
         (\<forall>k. map_of (Values sess2) (Str k) =
            map_option Str (map_of (map (\<lambda>r. (rkey r, rvalue r))
              (rows_for (ID sess) (name sess) (table w'))) k)) \<and>
         (\<forall>x. \<not> is_Str x \<longrightarrow> map_of (Values sess2) x = None)"
    using New_reads_rows [of E s2 r "ID sess" "name sess" w' sess2 w2] dk by blast
  from n show "ID sess2 = ID sess" by simp
  from n show "name sess2 = name sess" by simp
  from n at show "map_of (Values sess2) (Str k) =
      map_option Str (saved_attributes E (Values sess) now k)" for k by simp
  from n show "map_of (Values sess2) x = None" if "\<not> is_Str x" for x using that by simp
qed

theorem Save_then_New_witness:
  "Save test_env test_store 864000000000000 [] test_session (test_world test_rows [])
     = (None,
        [\<lparr>Name = CookieIdName, Value = ''sess_sessionid|abc'', Path = ''/'', HttpOnly = True\<rparr>],
        test_session\<lparr>Values := [(Str ''user'', Str ''bob''),
                                 (Str SessionLastUpdated, Time 864000000000000)]\<rparr>,
        test_world [\<lparr>rid = ''zzz'', rname = ''main'', rkey = ''user'', rvalue = ''eve''\<rparr>,
                    \<lparr>rid = ''abc'', rname = ''main'', rkey = ''user'', rvalue = ''bob''\<rparr>,
                    \<lparr>rid = ''abc'', rname = ''main'', rkey = SessionLastUpdated,
                       rvalue = ''1970-01-11T00:00:00Z''\<rparr>] []) \<and>
   distinct (map fst (Values test_session)) \<and> strings_only (Values test_session) \<and>
   readCookie test_env test_store \<lparr>cookies = [(CookieIdName, ''sess_sessionid|abc'')]\<rparr>
     CookieIdName = ID test_session \<and>
   New test_env test_store \<lparr>cookies = [(CookieIdName, ''sess_sessionid|abc'')]\<rparr> ''main''
       (test_world [\<lparr>rid = ''zzz'', rname = ''main'', rkey = ''user'', rvalue = ''eve''\<rparr>,
                    \<lparr>rid = ''abc'', rname = ''main'', rkey = ''user'', rvalue = ''bob''\<rparr>,
                    \<lparr>rid = ''abc'', rname = ''main'', rkey = SessionLastUpdated,
                       rvalue = ''1970-01-11T00:00:00Z''\<rparr>] [])
     = (Inr \<lparr>ID = ''abc'',
             Values = [(Str ''user'', Str ''bob''),
                       (Str SessionLastUpdated, Str ''1970-01-11T00:00:00Z'')],
             name = ''main''\<rparr>,
        test_world [\<lparr>rid = ''zzz'', rname = ''main'', rkey = ''user'', rvalue = ''eve''\<rparr>,
                    \<lparr>rid = ''abc'', rname = ''main'', rkey = ''user'', rvalue = ''bob''\<rparr>,
                    \<lparr>rid = ''abc'', rname = ''main'', rkey = SessionLastUpdated,
                       rvalue = ''1970-01-11T00:00:00Z''\<rparr>] []) \<and>
   map_of (map (\<lambda>r. (rkey r, rvalue r)) (rows_for (ID test_session) (name test_session)
      (table (test_world
         [\<lparr>rid = ''zzz'', rname = ''main'', rkey = ''user'', rvalue = ''eve''\<rparr>,
          \<lparr>rid = ''abc'', rname = ''main'', rkey = ''user'', rvalue = ''bob''\<rparr>,
          \<lparr>rid = ''abc'', rname = ''main'', rkey = SessionLastUpdated,
             rvalue = ''1970-01-11T00:00:00Z''\<rparr>] []))))
     = saved_attributes test_env (Values test_session) 864000000000000 \<and>
   saved_attributes test_env (Values test_session) 864000000000000 ''user'' = Some ''bob'' \<and>
   saved_attributes test_env (Values test_session) 864000000000000 SessionLastUpdated
     = Some ''1970-01-11T00:00:00Z'' \<and>
   saved_attributes test_env (Values test_session) 864000000000000 ''old'' = None"
proof -
  have run: "Save test_env test_store 864000000000000 [] test_session (test_world test_rows [])
     = (None,
        [\<lparr>Name = CookieIdName, Value = ''sess_sessionid|abc'', Path = ''/'', HttpOnly = True\<rparr>],
        test_session\<lparr>Values := [(Str ''user'', Str ''bob''),
                                 (Str SessionLastUpdated, Time 864000000000000)]\<rparr>,
        test_world [\<lparr>rid = ''zzz'', rname = ''main'', rkey = ''user'', rvalue = ''eve''\<rparr>,
                    \<lparr>rid = ''abc'', rname = ''main'', rkey = ''user'', rvalue = ''bob''\<rparr>,
                    \<lparr>rid = ''abc'', rname = ''main'', rkey = SessionLastUpdated,
                       rvalue = ''1970-01-11T00:00:00Z''\<rparr>] [])"
    by (simp add: Save_defs test_defs)
  have d: "distinct (map fst (Values test_session))" by (simp add: test_session_def)
  have so: "strings_only (Values test_session)"
    by (simp add: strings_only_def is_Str_def test_session_def)
  have rc: "readCookie test_env test_store \<lparr>cookies = [(CookieIdName, ''sess_sessionid|abc'')]\<rparr>
     CookieIdName = ID test_session"
    by (simp add: readCookie_def request_Cookie_def cookrw_def test_defs)
  have new: "New test_env test_store \<lparr>cookies = [(CookieIdName, ''sess_sessionid|abc'')]\<rparr> ''main''
       (test_world [\<lparr>rid = ''zzz'', rname = ''main'', rkey = ''user'', rvalue = ''eve''\<rparr>,
                    \<lparr>rid = ''abc'', rname = ''main'', rkey = ''user'', rvalue = ''bob''\<rparr>,
                    \<lparr>rid = ''abc'', rname = ''main'', rkey = SessionLastUpdated,
                       rvalue = ''1970-01-11T00:00:00Z''\<rparr>] [])
     = (Inr \<lparr>ID = ''abc'',
             Values = [(Str ''user'', Str ''bob''),
                       (Str SessionLastUpdated, Str ''1970-01-11T00:00:00Z'')],
             name = ''main''\<rparr>,
        test_world [\<lparr>rid = ''zzz'', rname = ''main'', rkey = ''user'', rvalue = ''eve''\<rparr>,
                    \<lparr>rid = ''abc'', rname = ''main'', rkey = ''user'', rvalue = ''bob''\<rparr>,
                    \<lparr>rid = ''abc'', rname = ''main'', rkey = SessionLastUpdated,
                       rvalue = ''1970-01-11T00:00:00Z''\<rparr>] [])"
    by (simp add: New_defs test_defs)
  have sa: "saved_attributes test_env (Values test_session) 864000000000000 ''user'' = Some ''bob''"
    "saved_attributes test_env (Values test_session) 864000000000000 SessionLastUpdated
       = Some ''1970-01-11T00:00:00Z''"
    "saved_attributes test_env (Values test_session) 864000000000000 ''old'' = None"
    by (simp_all add: saved_attributes_def test_defs)
  from Save_then_New [OF run d so]
  have stored: "map_of (map (\<lambda>r. (rkey r, rvalue r)) (rows_for (ID test_session) (name test_session)
      (table (test_world
         [\<lparr>rid = ''zzz'', rname = ''main'', rkey = ''user'', rvalue = ''eve''\<rparr>,
          \<lparr>rid = ''abc'', rname = ''main'', rkey = ''user'', rvalue = ''bob''\<rparr>,
          \<lparr>rid = ''abc'', rname = ''main'', rkey = SessionLastUpdated,
             rvalue = ''1970-01-11T00:00:00Z''\<rparr>] []))))
     = saved_attributes test_env (Values test_session) 864000000000000"
    by (rule conjunct1 [OF conjunct2])
  from run d so rc new stored sa show ?thesis by (intro conjI)
qed

subsection \<open>Save: the last-updated marker\<close>

text \<open>
  C2, as stated, at a save on day 10: what \<open>Save\<close> puts under the reserved key of the
  in-memory values is the clock reading as a time value, not the text of it.
\<close>

theorem Save_stamps_text_counterexample:
  "map_of (Values (fst (snd (snd
      (Save test_env test_store 864000000000000 [] test_session (test_world [] []))))))
     (Str SessionLastUpdated) = Some (Time 864000000000000) \<and>
   map_of (Values (fst (snd (snd
      (Save test_env test_store 864000000000000 [] test_session (test_world [] []))))))
     (Str SessionLastUpdated) \<noteq> Some (Str (format_time test_env 864000000000000))"
  by (simp add: Save_defs test_defs)

text \<open>
  C2, amended. Every \<open>Save\<close>, failed or not, leaves under the reserved key of the
  in-memory values the current time as a time value; the store formats nothing. After a
  \<open>Save\<close> that returned no error the marker row of the session holds the text that the
  SQL driver writes for that time value, and that text is what the query of \<open>Clean\<close>
  returns for the id, to be parsed.
\<close>

theorem Save_stamps_time_value:
  assumes "Save E s now resp sess w = (err, resp', sess', w')"
  shows "map_of (Values sess') (Str SessionLastUpdated) = Some (Time now) \<and>
         (err = None \<longrightarrow>
            (\<exists>r \<in> set (table w'). rid r = ID sess \<and> rname r = name sess \<and>
               rkey r = SessionLastUpdated \<and> rvalue r = format_time E now) \<and>
            (\<forall>ms w1. Query_last_updated SessionLastUpdated w' = (Inr ms, w1) \<longrightarrow>
               (ID sess, format_time E now) \<in> set ms))"
proof
  from assms have v: "Values sess' = stamped now sess"
    using Save_response_session [of E s now resp sess w err resp' sess' w'] by simp
  then show "map_of (Values sess') (Str SessionLastUpdated) = Some (Time now)"
    by (simp add: stamped_marker)
  show "err = None \<longrightarrow>
            (\<exists>r \<in> set (table w'). rid r = ID sess \<and> rname r = name sess \<and>
               rkey r = SessionLastUpdated \<and> rvalue r = format_time E now) \<and>
            (\<forall>ms w1. Query_last_updated SessionLastUpdated w' = (Inr ms, w1) \<longrightarrow>
               (ID sess, format_time E now) \<in> set ms)"
  proof
    assume "err = None"
    with assms have t: "table w' = filter (\<lambda>r. rid r \<noteq> ID sess) (table w) @
           map (row_of E (ID sess) (name sess)) (stamped now sess)"
      by (simp add: Save_ok)
    have "(Str SessionLastUpdated, Time now) \<in> set (stamped now sess)"
      by (rule map_of_SomeD) (rule stamped_marker)
    then have "row_of E (ID sess) (name sess) (Str SessionLastUpdated, Time now)
        \<in> set (map (row_of E (ID sess) (name sess)) (stamped now sess))"
      by (simp only: set_map) (rule imageI)
    with t have m: "row_of E (ID sess) (name sess) (Str SessionLastUpdated, Time now)
        \<in> set (table w')"
      by simp
    then have row: "\<exists>r \<in> set (table w'). rid r = ID sess \<and> rname r = name sess \<and>
               rkey r = SessionLastUpdated \<and> rvalue r = format_time E now"
      by (rule bexI [rotated]) (simp add: row_of_def)
    have query: "(ID sess, format_time E now) \<in> set ms"
      if "Query_last_updated SessionLastUpdated w' = (Inr ms, w1)" for ms w1
    proof -
      from that have "ms = map (\<lambda>r. (rid r, rvalue r))
          (filter (\<lambda>r. rkey r = SessionLastUpdated) (table w'))"
        by (simp add: Query_last_updated_ok)
      moreover from m have "row_of E (ID sess) (name sess) (Str SessionLastUpdated, Time now)
          \<in> set (filter (\<lambda>r. rkey r = SessionLastUpdated) (table w'))"
        by (simp add: row_of_def)
      then have "(\<lambda>r. (rid r, rvalue r))
            (row_of E (ID sess) (name sess) (Str SessionLastUpdated, Time now))
          \<in> set (map (\<lambda>r. (rid r, rvalue r))
              (filter (\<lambda>r. rkey r = SessionLastUpdated) (table w')))"
        by (simp only: set_map) (rule imageI)
      ultimately show ?thesis by (simp add: row_of_def)
    qed
    from row query show "(\<exists>r \<in> set (table w'). rid r = ID sess \<and> rname r = name sess \<and>
               rkey r = SessionLastUpdated \<and> rvalue r = format_time E now) \<and>
            (\<forall>ms w1. Query_last_updated SessionLastUpdated w' = (Inr ms, w1) \<longrightarrow>
               (ID sess, format_time E now) \<in> set ms)"
      by blast
  qed
qed

theorem Save_stamps_time_value_witness:
  "Save test_env test_store 864000000000000 [] test_session (test_world [] [])
     = (None,
        [\<lparr>Name = CookieIdName, Value = ''sess_sessionid|abc'', Path = ''/'', HttpOnly = True\<rparr>],
        test_session\<lparr>Values := [(Str ''user'', Str ''bob''),
                                 (Str SessionLastUpdated, Time 864000000000000)]\<rparr>,
        test_world [\<lparr>rid = ''abc'', rname = ''main'', rkey = ''user'', rvalue = ''bob''\<rparr>,
                    \<lparr>rid = ''abc'', rname = ''main'', rkey = SessionLastUpdated,
                       rvalue = ''1970-01-11T00:00:00Z''\<rparr>] []) \<and>
   format_time test_env 864000000000000 = ''1970-01-11T00:00:00Z''"
proof -
  have run: "Save test_env test_store 864000000000000 [] test_session (test_world [] [])
     = (None,
        [\<lparr>Name = CookieIdName, Value = ''sess_sessionid|abc'', Path = ''/'', HttpOnly = True\<rparr>],
        test_session\<lparr>Values := [(Str ''user'', Str ''bob''),
                                 (Str SessionLastUpdated, Time 864000000000000)]\<rparr>,
        test_world [\<lparr>rid = ''abc'', rname = ''main'', rkey = ''user'', rvalue = ''bob''\<rparr>,
                    \<lparr>rid = ''abc'', rname = ''main'', rkey = SessionLastUpdated,
                       rvalue = ''1970-01-11T00:00:00Z''\<rparr>] [])"
    by (simp add: Save_defs test_defs)
  from Save_stamps_time_value [OF run] run show ?thesis
    by (simp add: test_defs)
qed

subsection \<open>Clean\<close>

text \<open>
  C3, as stated, at the most negative duration, \<open>- 2 ^ 63\<close> nanoseconds: its negation
  overflows to itself, so the cutoff of \<open>Clean\<close> is \<open>2 ^ 63\<close> nanoseconds before \<open>now\<close>
  and not after it. A session last saved on day 9 is before \<open>now - d\<close> on day 10, yet
  \<open>Clean\<close> returns no error and keeps its rows.
\<close>

theorem Clean_minimum_duration_counterexample:
  "stale test_env (864000000000000 - sint (- 9223372036854775808 :: Duration))
     [\<lparr>rid = ''b'', rname = ''main'', rkey = SessionLastUpdated,
         rvalue = ''1970-01-10T00:00:00Z''\<rparr>] ''b'' \<and>
   Clean test_env 864000000000000 (- 9223372036854775808)
     (test_world [\<lparr>rid = ''b'', rname = ''main'', rkey = SessionLastUpdated,
                     rvalue = ''1970-01-10T00:00:00Z''\<rparr>] [])
     = (None, test_world [\<lparr>rid = ''b'', rname = ''main'', rkey = SessionLastUpdated,
                             rvalue = ''1970-01-10T00:00:00Z''\<rparr>] [])"
  by (simp add: Clean_defs stale_def test_defs)

text \<open>
  C3, amended. For every inactivity threshold other than the most negative duration, with
  the cutoff \<open>now - inactive\<close>: a \<open>Clean\<close> that returns no error leaves exactly the rows
  of the ids that are not stale, so every row of an id with a marker strictly before the
  cutoff is deleted; and whatever \<open>Clean\<close> returns, the rows of an id whose markers are at
  or after the cutoff are unchanged.
\<close>

theorem Clean_deletes_stale:
  assumes "inactive \<noteq> - 9223372036854775808"
      and "Clean E now inactive w = (err, w')"
  shows "(err = None \<longrightarrow>
            table w' = filter (\<lambda>r. \<not> stale E (now - sint inactive) (table w) (rid r)) (table w) \<and>
            (\<forall>i. stale E (now - sint inactive) (table w) i \<longrightarrow> rows_of_id i (table w') = [])) \<and>
         (\<forall>i. fresh E (now - sint inactive) (table w) i \<longrightarrow>
            rows_of_id i (table w') = rows_of_id i (table w))"
proof (cases "Query_last_updated SessionLastUpdated w")
  case (Pair q w1)
  show ?thesis
  proof (cases q)
    case (Inl e)
    with Pair assms(2) have "err = Some e" and "table w' = table w"
      by (auto simp: Clean_def dest: Query_last_updated_failed)
    then show ?thesis by simp
  next
    case (Inr ms)
    with Pair have ms: "ms = map (\<lambda>r. (rid r, rvalue r))
        (filter (\<lambda>r. rkey r = SessionLastUpdated) (table w))" and t1: "table w1 = table w"
      by (auto dest: Query_last_updated_ok)
    from Pair Inr assms have loop: "Clean_rows E (now - sint inactive) ms w1 = (err, w')"
      by (simp add: Clean_def Let_def Clean_cutoff)
    have st: "stale_marker E (now - sint inactive) ms i = stale E (now - sint inactive) (table w) i"
      for i unfolding ms by (rule stale_marker_table)
    have all: "table w' = filter (\<lambda>r. \<not> stale E (now - sint inactive) (table w) (rid r)) (table w)"
      if "err = None"
      using Clean_rows_ok [of E "now - sint inactive" ms w1 w'] loop that t1 st by simp
    have gone: "rows_of_id i (table w') = []"
      if "err = None" and "stale E (now - sint inactive) (table w) i" for i
      using all [OF that(1)] that(2) by (auto simp: rows_of_id_def filter_empty_conv)
    have kept: "rows_of_id i (table w') = rows_of_id i (table w)"
      if "fresh E (now - sint inactive) (table w) i" for i
    proof -
      from that have "\<not> stale_marker E (now - sint inactive) ms i"
        by (simp add: st fresh_not_stale)
      with loop have "rows_of_id i (table w') = rows_of_id i (table w1)"
        by (rule Clean_rows_keeps)
      with t1 show ?thesis by simp
    qed
    from all gone kept show ?thesis by blast
  qed
qed

theorem Clean_deletes_stale_witness:
  "(432000000000000 :: Duration) \<noteq> - 9223372036854775808 \<and>
   Clean test_env 864000000000000 432000000000000 (test_world test_sessions [])
     = (None, test_world
         [\<lparr>rid = ''b'', rname = ''main'', rkey = SessionLastUpdated,
             rvalue = ''1970-01-10T00:00:00Z''\<rparr>,
          \<lparr>rid = ''b'', rname = ''main'', rkey = ''user'', rvalue = ''bob''\<rparr>] []) \<and>
   stale test_env (864000000000000 - sint (432000000000000 :: Duration))
     (table (test_world test_sessions [])) ''a'' \<and>
   fresh test_env (864000000000000 - sint (432000000000000 :: Duration))
     (table (test_world test_sessions [])) ''b'' \<and>
   rows_of_id ''a'' (table (test_world
         [\<lparr>rid = ''b'', rname = ''main'', rkey = SessionLastUpdated,
             rvalue = ''1970-01-10T00:00:00Z''\<rparr>,
          \<lparr>rid = ''b'', rname = ''main'', rkey = ''user'', rvalue = ''bob''\<rparr>] [])) = [] \<and>
   rows_of_id ''b'' (table (test_world
         [\<lparr>rid = ''b'', rname = ''main'', rkey = SessionLastUpdated,
             rvalue = ''1970-01-10T00:00:00Z''\<rparr>,
          \<lparr>rid = ''b'', rname = ''main'', rkey = ''user'', rvalue = ''bob''\<rparr>] []))
     = rows_of_id ''b'' (table (test_world test_sessions []))"
proof -
  have d: "(432000000000000 :: Duration) \<noteq> - 9223372036854775808" by simp
  have run: "Clean test_env 864000000000000 432000000000000 (test_world test_sessions [])
     = (None, test_world
         [\<lparr>rid = ''b'', rname = ''main'', rkey = SessionLastUpdated,
             rvalue = ''1970-01-10T00:00:00Z''\<rparr>,
          \<lparr>rid = ''b'', rname = ''main'', rkey = ''user'', rvalue = ''bob''\<rparr>] [])"
    by (simp add: Clean_defs test_defs)
  have a: "stale test_env (864000000000000 - sint (432000000000000 :: Duration))
      (table (test_world test_sessions [])) ''a''"
    by (simp add: stale_def test_defs)
  have b: "fresh test_env (864000000000000 - sint (432000000000000 :: Duration))
      (table (test_world test_sessions [])) ''b''"
    by (simp add: fresh_def test_defs)
  note sweep = Clean_deletes_stale [OF d run]
  from sweep a have gone: "rows_of_id ''a'' (table (test_world
         [\<lparr>rid = ''b'', rname = ''main'', rkey = SessionLastUpdated,
             rvalue = ''1970-01-10T00:00:00Z''\<rparr>,
          \<lparr>rid = ''b'', rname = ''main'', rkey = ''user'', rvalue = ''bob''\<rparr>] [])) = []"
    by blast
  from sweep b have kept: "rows_of_id ''b'' (table (test_world
         [\<lparr>rid = ''b'', rname = ''main'', rkey = SessionLastUpdated,
             rvalue = ''1970-01-10T00:00:00Z''\<rparr>,
          \<lparr>rid = ''b'', rname = ''main'', rkey = ''user'', rvalue = ''bob''\<rparr>] []))
     = rows_of_id ''b'' (table (test_world test_sessions []))"
    by blast
  from d run a b gone kept show ?thesis by (intro conjI)
qed

end
